theory Spec2Isabelle
  imports Complex_Main "HOL-Library.Word" "HOL-Library.Sublist"
begin

unbundle bit_operations_syntax

section \<open>Binary store: structural validation\<close>

text \<open>
  A Node \<open>Buffer\<close> is a sequence of bytes. \<open>binaryData.subarray(start, end)\<close> clamps both
  indices to the length of the buffer and yields the bytes in between (nothing when the
  clamped end does not exceed the clamped start).
\<close>

type_synonym byte = "8 word"

definition subarray :: "byte list \<Rightarrow> nat \<Rightarrow> nat \<Rightarrow> byte list" where
  "subarray b start end =
     (let s = min start (length b); e = min end (length b)
      in take (e - s) (drop s b))"

record validation =
  valid :: bool
  reason :: "string option"

definition elfMagic :: "byte list" where
  "elfMagic = [0x7f, 0x45, 0x4c, 0x46]"

text \<open>\<open>BinaryManager.validateBinary\<close>: the three checks in the order of the source.\<close>

definition validateBinary :: "byte list \<Rightarrow> validation" where
  "validateBinary binaryData =
     (if length binaryData = 0 then \<lparr>valid = False, reason = Some ''Empty binary''\<rparr>
      else if subarray binaryData 0 4 \<noteq> elfMagic
        then \<lparr>valid = False, reason = Some ''Invalid ELF header''\<rparr>
      else if length binaryData > 100 * 1024 * 1024
        then \<lparr>valid = False, reason = Some ''Binary too large (>100MB)''\<rparr>
      else \<lparr>valid = True, reason = None\<rparr>)"

text \<open>The header condition in the words of the specification: there are four first bytes
  and they are \<open>7F 45 4C 46\<close>.\<close>

definition starts_with_elf_magic :: "byte list \<Rightarrow> bool" where
  "starts_with_elf_magic bs \<longleftrightarrow>
     4 \<le> length bs \<and> bs ! 0 = 0x7F \<and> bs ! 1 = 0x45 \<and> bs ! 2 = 0x4C \<and> bs ! 3 = 0x46"


section \<open>Transaction builder: the buffer-write instructions\<close>

text \<open>
  A public key is carried in its base-58 text form. An instruction is the record that
  \<open>new TransactionInstruction({keys, programId, data})\<close> builds.
\<close>

type_synonym PublicKey = string

record AccountMeta =
  pubkey :: PublicKey
  isSigner :: bool
  isWritable :: bool

record TransactionInstruction =
  keys :: "AccountMeta list"
  ix_programId :: PublicKey
  ix_data :: "byte list"

definition BPF_LOADER_DEPRECATED_PROGRAM_ID :: PublicKey where
  "BPF_LOADER_DEPRECATED_PROGRAM_ID = ''BPFLoader1111111111111111111111111111111111''"

text \<open>
  \<open>Buffer.from(new Uint32Array([offset]).buffer)\<close>: the number is converted to an
  unsigned 32-bit integer, which wraps modulo \<open>2^32\<close>, and its four bytes are read in
  the byte order of the platform (little-endian on the platforms Node runs on).
\<close>

definition u32_le_bytes :: "32 word \<Rightarrow> byte list" where
  "u32_le_bytes w =
     [ucast w, ucast (drop_bit 8 w), ucast (drop_bit 16 w), ucast (drop_bit 24 w)]"

definition Uint32Array_buffer :: "nat \<Rightarrow> byte list" where
  "Uint32Array_buffer n = u32_le_bytes (word_of_nat n)"

definition chunkSize :: nat where
  "chunkSize = 900"

text \<open>The body of the loop of \<open>createWriteBufferInstructions\<close>: the instruction pushed
  for one offset. \<open>data.slice(start, end)\<close> of a Buffer selects the same bytes as
  \<open>subarray\<close>.\<close>

definition writeInstruction ::
  "PublicKey \<Rightarrow> PublicKey \<Rightarrow> byte list \<Rightarrow> nat \<Rightarrow> TransactionInstruction" where
  "writeInstruction buffer authority dat offset =
     (let chunk = subarray dat offset (min (offset + chunkSize) (length dat));
          keys = [\<lparr>pubkey = buffer, isSigner = False, isWritable = True\<rparr>,
                  \<lparr>pubkey = authority, isSigner = True, isWritable = False\<rparr>];
          instructionData = [1] @ Uint32Array_buffer offset @ chunk
      in \<lparr>keys = keys, ix_programId = BPF_LOADER_DEPRECATED_PROGRAM_ID,
          ix_data = instructionData\<rparr>)"

text \<open>The \<open>for\<close> loop, with the offset and the instructions pushed so far as its state.\<close>

function writeLoop ::
  "PublicKey \<Rightarrow> PublicKey \<Rightarrow> byte list \<Rightarrow> nat \<Rightarrow> TransactionInstruction list
     \<Rightarrow> TransactionInstruction list" where
  "writeLoop buffer authority dat offset instructions =
     (if offset < length dat
      then writeLoop buffer authority dat (offset + chunkSize)
             (instructions @ [writeInstruction buffer authority dat offset])
      else instructions)"
  by pat_completeness auto
termination
  by (relation "measure (\<lambda>(b, a, d, off, acc). length d - off)") (auto simp: chunkSize_def)

declare writeLoop.simps [simp del]

definition createWriteBufferInstructions ::
  "PublicKey \<Rightarrow> PublicKey \<Rightarrow> byte list \<Rightarrow> TransactionInstruction list" where
  "createWriteBufferInstructions buffer authority dat = writeLoop buffer authority dat 0 []"

text \<open>
  Reading an instruction back, as the loader does: byte 0 is the opcode, bytes 1 to 4 are
  the offset (little-endian), the rest is the chunk.
\<close>

definition u32_of_le_bytes :: "byte list \<Rightarrow> 32 word" where
  "u32_of_le_bytes bs =
     ucast (bs ! 0) OR push_bit 8 (ucast (bs ! 1)) OR push_bit 16 (ucast (bs ! 2))
       OR push_bit 24 (ucast (bs ! 3))"

definition recorded_offset :: "TransactionInstruction \<Rightarrow> 32 word" where
  "recorded_offset ix = u32_of_le_bytes (take 4 (drop 1 (ix_data ix)))"

definition chunk_payload :: "TransactionInstruction \<Rightarrow> byte list" where
  "chunk_payload ix = drop 5 (ix_data ix)"

text \<open>The number of iterations that remain when the loop is at \<open>offset\<close>.\<close>

definition chunkCount :: "nat \<Rightarrow> nat \<Rightarrow> nat" where
  "chunkCount len offset = (len - offset + (chunkSize - 1)) div chunkSize"

section \<open>Deployment records, the state store and the environment\<close>

datatype Status = Pending | Deploying | Deployed | Recovering | Recovered | Failed

text \<open>The interface \<open>DeploymentRecord\<close>; an optional field that is absent is \<open>None\<close>.\<close>

record DeploymentRecord =
  loanId :: string
  borrower :: string
  programId :: "string option"
  bufferAccount :: "string option"
  deployTxSignature :: "string option"
  setDeployedTxSignature :: "string option"
  recoveryTxSignature :: "string option"
  status :: Status
  error :: "string option"
  createdAt :: nat
  updatedAt :: nat
  binaryHash :: "string option"
  principal :: string

text \<open>
  Thrown values are \<open>Error\<close> objects carrying a message, as every \<open>throw\<close> of the
  service builds them. \<open>String(error)\<close> is \<open>Error.prototype.toString\<close>: the name
  \<open>Error\<close> alone for an empty message, the name, a colon and the message otherwise.
\<close>

datatype js_error = Error (message: string)

definition String :: "js_error \<Rightarrow> string" where
  "String e = (if message e = [] then ''Error'' else ''Error: '' @ message e)"

text \<open>The fields of \<open>config\<close> that the orchestrator reads.\<close>

record DeployerConfig =
  binaryStoragePath :: string
  maxRetries :: nat
  retryDelayMs :: nat

text \<open>
  What the service does to the outside, in order: writes to the state store and to the
  file system, transactions sent to the chain, and the timers it waits for.
\<close>

datatype effect =
    SaveDeployment DeploymentRecord
  | WriteFile string "byte list"
  | DeployProgram string "byte list"
  | SetDeployedProgram string string
  | CloseProgram string string
  | ReturnReclaimedSol string nat
  | Sleep nat

text \<open>
  The state the service works on. \<open>db\<close> is the LevelDB store of deployment records
  (key \<open>deployment:<loanId>\<close>, one value per key; a value is a copy of the record at the
  time of the write), \<open>files\<close> the directory of binaries, \<open>clock\<close> the value of
  \<open>Date.now()\<close>, which here advances only while the service waits for a timer,
  \<open>deployerPdaBalance\<close> the lamports held by the deployer PDA on the chain,
  \<open>attemptCount\<close> and \<open>recoveries\<close> the numbers of deployment attempts and of
  recoveries started so far, and \<open>trace\<close> the effects so far. Reads and writes of the
  store and of the files succeed; their I/O failures are not modelled.
\<close>

record world =
  db :: "string \<rightharpoonup> DeploymentRecord"
  files :: "string \<rightharpoonup> byte list"
  clock :: nat
  deployerPdaBalance :: nat
  attemptCount :: nat
  recoveries :: nat
  trace :: "effect list"

text \<open>The outcome of the transaction that closes a program: the program account is
  missing, the request fails, or the program data account is closed, which credits its
  lamports to the recipient and yields a signature.\<close>

datatype close_outcome = AccountMissing | CloseFailed js_error | Closed nat string

text \<open>
  The collaborators outside the repository, as parameters: the hash and path functions
  of Node, whether an admin keypair was loaded, whether a text is a public key, and the
  answers of the chain. An answer depends on the number of the deployment attempt (or of
  the recovery) that asks, and on the arguments of the call; \<open>Inl\<close> is a thrown error.
  \<open>balanceAfterReturn b a\<close> is the balance that the on-chain program leaves on the
  deployer PDA when it accepts the return of \<open>a\<close> lamports from a balance of \<open>b\<close>.
\<close>

record deps =
  sha256hex :: "byte list \<Rightarrow> string"
  path_join :: "string \<Rightarrow> string \<Rightarrow> string"
  adminWallet :: bool
  isPublicKey :: "string \<Rightarrow> bool"
  deployTransaction :: "nat \<Rightarrow> string \<Rightarrow> byte list \<Rightarrow> js_error + (string \<times> string \<times> string)"
  setDeployedProgramRpc :: "nat \<Rightarrow> string \<Rightarrow> string \<Rightarrow> js_error + string"
  closeTransaction :: "nat \<Rightarrow> string \<Rightarrow> string \<Rightarrow> close_outcome"
  returnReclaimedSolRpc :: "nat \<Rightarrow> string \<Rightarrow> nat \<Rightarrow> js_error + string"
  balanceAfterReturn :: "nat \<Rightarrow> nat \<Rightarrow> nat"

subsection \<open>StateManager\<close>

definition getDeployment :: "world \<Rightarrow> string \<Rightarrow> DeploymentRecord option" where
  "getDeployment w lid = db w lid"

definition saveDeployment :: "DeploymentRecord \<Rightarrow> world \<Rightarrow> world" where
  "saveDeployment record w =
     w\<lparr>db := (db w)(loanId record \<mapsto> record), trace := trace w @ [SaveDeployment record]\<rparr>"

subsection \<open>BinaryManager.storeBinary\<close>

text \<open>\<open>fs.writeFile\<close> with its default flag creates the file or replaces its content.\<close>

definition writeFile :: "string \<Rightarrow> byte list \<Rightarrow> world \<Rightarrow> world" where
  "writeFile filePath content w =
     w\<lparr>files := (files w)(filePath \<mapsto> content), trace := trace w @ [WriteFile filePath content]\<rparr>"

definition binaryPath :: "deps \<Rightarrow> string \<Rightarrow> string \<Rightarrow> string \<Rightarrow> string" where
  "binaryPath env storagePath lid hash = path_join env storagePath (lid @ ''_'' @ hash @ ''.so'')"

definition storeBinary :: "deps \<Rightarrow> string \<Rightarrow> string \<Rightarrow> byte list \<Rightarrow> world \<Rightarrow> string \<times> world" where
  "storeBinary env storagePath lid binaryData w =
     (let hash = sha256hex env binaryData;
          filePath = binaryPath env storagePath lid hash
      in (hash, writeFile filePath binaryData w))"

subsection \<open>JavaScript numbers\<close>

text \<open>
  The amounts of a recovery pass through JS numbers, which are IEEE 754 doubles. A number
  that is finite and not negative is given here by a mantissa and an exponent: \<open>(m, e)\<close>
  is \<open>m * 2^e\<close>. \<open>to_double p q\<close> is the double nearest to the fraction \<open>p / q\<close>
  (\<open>q > 0\<close>), with ties to the even mantissa: 53 bits of mantissa below the leading
  power of two \<open>2^(floor_log2 p q)\<close>. Every value that occurs is 0 or at least
  \<open>10^-9\<close>, so no subnormal occurs; a value too large for a double is at least \<open>2^53\<close>
  and is refused by \<open>BN\<close> like every value from \<open>2^53\<close> on.
\<close>

type_synonym number = "nat \<times> int"

function bitlen :: "nat \<Rightarrow> nat" where
  "bitlen n = (if n = 0 then 0 else Suc (bitlen (n div 2)))"
  by pat_completeness auto
termination
  by (relation "measure (\<lambda>n. n)") auto

declare bitlen.simps [simp del]

definition round_half_even :: "nat \<Rightarrow> nat \<Rightarrow> nat" where
  "round_half_even p q =
     (let d = p div q; r = p mod q
      in if 2 * r < q then d else if q < 2 * r then d + 1 else if even d then d else d + 1)"

definition floor_log2 :: "nat \<Rightarrow> nat \<Rightarrow> int" where
  "floor_log2 p q =
     (let d = int (bitlen p) - int (bitlen q)
      in if q * 2 ^ nat d \<le> p * 2 ^ nat (- d) then d else d - 1)"

definition to_double :: "nat \<Rightarrow> nat \<Rightarrow> number" where
  "to_double p q =
     (if p = 0 then (0, 0)
      else (let s = 52 - floor_log2 p q
            in (round_half_even (p * 2 ^ nat s) (q * 2 ^ nat (- s)), - s)))"

text \<open>An integer that arrives as a JS number, and the quotient and the product of a number
  and a positive integer below \<open>2^53\<close>, each rounded once.\<close>

definition number_of_nat :: "nat \<Rightarrow> number" where
  "number_of_nat n = to_double n 1"

fun divide_number :: "number \<Rightarrow> nat \<Rightarrow> number" where
  "divide_number (m, e) k = to_double (m * 2 ^ nat e) (k * 2 ^ nat (- e))"

fun times_number :: "number \<Rightarrow> nat \<Rightarrow> number" where
  "times_number (m, e) k = to_double (m * k * 2 ^ nat e) (2 ^ nat (- e))"

text \<open>
  \<open>new BN(number)\<close> of bn.js: a number below \<open>2^53\<close> gives its integer part, a number
  from \<open>2^53\<close> on fails the assertion of the constructor.
\<close>

fun BN :: "number \<Rightarrow> js_error + nat" where
  "BN (m, e) =
     (if m * 2 ^ nat e < 2 ^ 53 * 2 ^ nat (- e)
      then Inr ((m * 2 ^ nat e) div 2 ^ nat (- e))
      else Inl (Error ''Assertion failed''))"

subsection \<open>ProgramDeployer\<close>

definition LAMPORTS_PER_SOL :: nat where
  "LAMPORTS_PER_SOL = 1000000000"

text \<open>
  \<open>deployProgram\<close> builds one transaction (compute budget, buffer creation, buffer
  initialisation, the buffer-write instructions above, deployment) under fresh keypairs
  and sends it; its catch block rethrows. What the chain answers is the parameter
  \<open>deployTransaction\<close>: an error, or the program, the buffer and the signature.
\<close>

definition deployProgram ::
  "deps \<Rightarrow> nat \<Rightarrow> string \<Rightarrow> byte list \<Rightarrow> world
     \<Rightarrow> (js_error + (string \<times> string \<times> string)) \<times> world" where
  "deployProgram env n lid binaryData w =
     (deployTransaction env n lid binaryData,
      w\<lparr>trace := trace w @ [DeployProgram lid binaryData]\<rparr>)"

definition setDeployedProgram ::
  "deps \<Rightarrow> nat \<Rightarrow> string \<Rightarrow> string \<Rightarrow> world \<Rightarrow> (js_error + string) \<times> world" where
  "setDeployedProgram env n lid programPubkey w =
     (if \<not> adminWallet env
      then (Inl (Error ''Admin wallet not configured for set_deployed_program''), w)
      else (setDeployedProgramRpc env n lid programPubkey,
            w\<lparr>trace := trace w @ [SetDeployedProgram lid programPubkey]\<rparr>))"

text \<open>
  \<open>closeProgram\<close>: the program data account is closed with the deployer PDA as the
  recipient, then the balance of the deployer PDA is read, and that balance divided by
  \<open>LAMPORTS_PER_SOL\<close> is returned as \<open>reclaimedSol\<close>. The balance is not read before the
  closure.
\<close>

definition closeProgram ::
  "deps \<Rightarrow> nat \<Rightarrow> string \<Rightarrow> string \<Rightarrow> world \<Rightarrow> (js_error + (number \<times> string)) \<times> world" where
  "closeProgram env n lid pid w =
     (case closeTransaction env n lid pid of
        AccountMissing \<Rightarrow> (Inl (Error ''Program account not found''), w)
      | CloseFailed e \<Rightarrow> (Inl e, w\<lparr>trace := trace w @ [CloseProgram lid pid]\<rparr>)
      | Closed credited signature \<Rightarrow>
          (let w' = w\<lparr>deployerPdaBalance := deployerPdaBalance w + credited,
                       trace := trace w @ [CloseProgram lid pid]\<rparr>;
               afterBalance = number_of_nat (deployerPdaBalance w')
           in (Inr (divide_number afterBalance LAMPORTS_PER_SOL, signature), w')))"

text \<open>
  \<open>returnReclaimedSol\<close>: the amount is multiplied by \<open>LAMPORTS_PER_SOL\<close> and made a
  \<open>BN\<close>, inside the \<open>try\<close> block; then the instruction is sent with it.
\<close>

definition returnReclaimedSol ::
  "deps \<Rightarrow> nat \<Rightarrow> string \<Rightarrow> number \<Rightarrow> world \<Rightarrow> (js_error + string) \<times> world" where
  "returnReclaimedSol env n lid amount w =
     (case BN (times_number amount LAMPORTS_PER_SOL) of
        Inl e \<Rightarrow> (Inl e, w)
      | Inr amountLamports \<Rightarrow>
          (let w' = w\<lparr>trace := trace w @ [ReturnReclaimedSol lid amountLamports]\<rparr>
           in case returnReclaimedSolRpc env n lid amountLamports of
                Inl e \<Rightarrow> (Inl e, w')
              | Inr tx \<Rightarrow>
                  (Inr tx, w'\<lparr>deployerPdaBalance :=
                               balanceAfterReturn env (deployerPdaBalance w') amountLamports\<rparr>)))"

subsection \<open>DeployerOrchestrator\<close>

text \<open>\<open>fetchBinaryForLoan\<close> reads the file \<open>test-program.so\<close> of the storage directory and
  turns every failure of the read into its own error.\<close>

definition fetchBinaryForLoan ::
  "deps \<Rightarrow> DeployerConfig \<Rightarrow> string \<Rightarrow> string \<Rightarrow> world \<Rightarrow> js_error + byte list" where
  "fetchBinaryForLoan env cfg lid bor w =
     (let dummyBinaryPath = path_join env (binaryStoragePath cfg) ''test-program.so''
      in case files w dummyBinaryPath of
           None \<Rightarrow> Inl (Error ''Binary not found for loan. Implement binary retrieval logic.'')
         | Some content \<Rightarrow> Inr content)"

text \<open>The text that a template literal gives for \<open>validation.reason\<close>.\<close>

definition reason_text :: "validation \<Rightarrow> string" where
  "reason_text v = (case reason v of None \<Rightarrow> ''undefined'' | Some r \<Rightarrow> r)"

text \<open>
  \<open>processDeployment\<close> mutates the record it is given and may throw half-way. The model
  returns the thrown error (\<open>None\<close> when the call returns), the record as the call left it,
  and the state.
\<close>

definition processDeployment ::
  "deps \<Rightarrow> DeployerConfig \<Rightarrow> DeploymentRecord \<Rightarrow> world
     \<Rightarrow> js_error option \<times> DeploymentRecord \<times> world" where
  "processDeployment env cfg deployment w =
     (let lid = loanId deployment;
          bor = borrower deployment;
          n = attemptCount w;
          deployment1 = deployment\<lparr>status := Deploying, updatedAt := clock w\<rparr>;
          w1 = saveDeployment deployment1 (w\<lparr>attemptCount := attemptCount w + 1\<rparr>)
      in case fetchBinaryForLoan env cfg lid bor w1 of
           Inl e \<Rightarrow> (Some e, deployment1, w1)
         | Inr binaryData \<Rightarrow>
             (let validation = validateBinary binaryData
              in if \<not> valid validation
                 then (Some (Error (''Binary validation failed: '' @ reason_text validation)),
                       deployment1, w1)
                 else
                   (case storeBinary env (binaryStoragePath cfg) lid binaryData w1 of
                      (hash, w2) \<Rightarrow>
                        (let deployment2 = deployment1\<lparr>binaryHash := Some hash\<rparr>
                         in case deployProgram env n lid binaryData w2 of
                              (Inl e, w3) \<Rightarrow> (Some e, deployment2, w3)
                            | (Inr (pid, bufferAcc, signature), w3) \<Rightarrow>
                                (let deployment3 = deployment2
                                       \<lparr>programId := Some pid,
                                        bufferAccount := Some bufferAcc,
                                        deployTxSignature := Some signature\<rparr>
                                 in case setDeployedProgram env n lid pid w3 of
                                      (Inl e, w4) \<Rightarrow> (Some e, deployment3, w4)
                                    | (Inr setTx, w4) \<Rightarrow>
                                        (let deployment4 = deployment3
                                               \<lparr>setDeployedTxSignature := Some setTx,
                                                status := Deployed,
                                                updatedAt := clock w4\<rparr>
                                         in (None, deployment4,
                                             saveDeployment deployment4 w4)))))))"

text \<open>
  \<open>await new Promise(resolve => setTimeout(resolve, ms))\<close>: a timer of \<open>ms\<close>
  milliseconds is requested and waited for. The delay of the trace is the delay that is
  passed to \<open>setTimeout\<close>; what Node does with a delay above \<open>2^31 - 1\<close> is not
  modelled.
\<close>

definition sleep :: "nat \<Rightarrow> world \<Rightarrow> world" where
  "sleep ms w = w\<lparr>clock := clock w + ms, trace := trace w @ [Sleep ms]\<rparr>"

text \<open>The \<open>while\<close> loop of \<open>processDeploymentWithRetries\<close>, with the local counter
  \<open>attempts\<close> as an argument. \<open>maxRetries\<close> is a count: a value that is not positive
  leaves the loop at once, as 0 does.\<close>

function retryLoop ::
  "deps \<Rightarrow> DeployerConfig \<Rightarrow> nat \<Rightarrow> DeploymentRecord \<Rightarrow> world \<Rightarrow> DeploymentRecord \<times> world" where
  "retryLoop env cfg attempts deployment w =
     (if attempts < maxRetries cfg
      then (case processDeployment env cfg deployment w of
              (None, deployment', w') \<Rightarrow> (deployment', w')
            | (Some err, deployment', w') \<Rightarrow>
                (let attempts' = attempts + 1
                 in if attempts' \<ge> maxRetries cfg
                    then (let failedRecord = deployment'\<lparr>status := Failed,
                                                             error := Some (String err)\<rparr>
                          in (failedRecord, saveDeployment failedRecord w'))
                    else retryLoop env cfg attempts' deployment'
                           (sleep (retryDelayMs cfg * 2 ^ (attempts' - 1)) w')))
      else (deployment, w))"
  by pat_completeness auto
termination
  by (relation "measure (\<lambda>(env, cfg, attempts, d, w). maxRetries cfg - attempts)") auto

declare retryLoop.simps [simp del]

definition processDeploymentWithRetries ::
  "deps \<Rightarrow> DeployerConfig \<Rightarrow> DeploymentRecord \<Rightarrow> world \<Rightarrow> DeploymentRecord \<times> world" where
  "processDeploymentWithRetries env cfg deployment w = retryLoop env cfg 0 deployment w"

text \<open>The payload of a \<open>loanRequested\<close> event, as far as the handler reads it.\<close>

record LoanRequestedEvent =
  ev_loanId :: string
  ev_borrower :: string
  ev_principal :: string

text \<open>The record that \<open>handleLoanRequested\<close> creates; \<open>Date.now()\<close> is the clock.\<close>

definition newDeployment :: "LoanRequestedEvent \<Rightarrow> world \<Rightarrow> DeploymentRecord" where
  "newDeployment ev w =
     \<lparr>loanId = ev_loanId ev, borrower = ev_borrower ev,
      programId = None, bufferAccount = None, deployTxSignature = None,
      setDeployedTxSignature = None, recoveryTxSignature = None,
      status = Pending, error = None, createdAt = clock w, updatedAt = clock w,
      binaryHash = None, principal = ev_principal ev\<rparr>"

text \<open>The guard \<open>deployment && deployment.status !== 'failed'\<close>.\<close>

definition alreadyProcessed :: "DeploymentRecord option \<Rightarrow> bool" where
  "alreadyProcessed deployment =
     (case deployment of None \<Rightarrow> False | Some existing \<Rightarrow> status existing \<noteq> Failed)"

definition handleLoanRequested ::
  "deps \<Rightarrow> DeployerConfig \<Rightarrow> LoanRequestedEvent \<Rightarrow> world \<Rightarrow> world" where
  "handleLoanRequested env cfg ev w =
     (if alreadyProcessed (getDeployment w (ev_loanId ev)) then w
      else
        (let deployment = newDeployment ev w
         in snd (processDeploymentWithRetries env cfg deployment
                   (saveDeployment deployment w))))"



text \<open>The \<open>catch\<close> block of \<open>processRecovery\<close>.\<close>

definition recoveryFailed :: "js_error \<Rightarrow> DeploymentRecord \<Rightarrow> world \<Rightarrow> world" where
  "recoveryFailed err deployment w =
     saveDeployment (deployment\<lparr>status := Failed, error := Some (String err)\<rparr>) w"

text \<open>
  \<open>processRecovery\<close>. The test \<open>if (deployment.programId)\<close> is false for an absent
  field and for the empty string. \<open>new PublicKey(deployment.programId)\<close> throws on a
  text that is not a public key, inside the \<open>try\<close> block.
\<close>

definition processRecovery :: "deps \<Rightarrow> string \<Rightarrow> world \<Rightarrow> world" where
  "processRecovery env lid w =
     (case getDeployment w lid of
        None \<Rightarrow> w
      | Some deployment \<Rightarrow>
          if status deployment \<noteq> Deployed then w
          else
            (let n = recoveries w;
                 deployment1 = deployment\<lparr>status := Recovering, updatedAt := clock w\<rparr>;
                 w1 = saveDeployment deployment1 (w\<lparr>recoveries := recoveries w + 1\<rparr>)
             in case programId deployment1 of
                  None \<Rightarrow> w1
                | Some pid \<Rightarrow>
                    if pid = [] then w1
                    else if \<not> isPublicKey env pid
                      then recoveryFailed (Error ''Invalid public key input'') deployment1 w1
                    else
                      (case closeProgram env n lid pid w1 of
                         (Inl e, w2) \<Rightarrow> recoveryFailed e deployment1 w2
                       | (Inr (reclaimedSol, signature), w2) \<Rightarrow>
                           (case returnReclaimedSol env n lid reclaimedSol w2 of
                              (Inl e, w3) \<Rightarrow> recoveryFailed e deployment1 w3
                            | (Inr returnTx, w3) \<Rightarrow>
                                saveDeployment
                                  (deployment1\<lparr>recoveryTxSignature := Some signature,
                                               status := Recovered,
                                               updatedAt := clock w3\<rparr>)
                                  w3))))"

definition handleLoanRecovered :: "deps \<Rightarrow> string \<Rightarrow> world \<Rightarrow> world" where
  "handleLoanRecovered env lid w = processRecovery env lid w"

definition handleLoanExpired :: "deps \<Rightarrow> string \<Rightarrow> world \<Rightarrow> world" where
  "handleLoanExpired env lid w = processRecovery env lid w"

text \<open>The three events of the monitor. In a run the events are handled one after the
  other: a handler has returned before the next event is taken.\<close>

datatype event = LoanRequested LoanRequestedEvent | LoanRecovered string | LoanExpired string

fun handle :: "deps \<Rightarrow> DeployerConfig \<Rightarrow> world \<Rightarrow> event \<Rightarrow> world" where
  "handle env cfg w (LoanRequested ev) = handleLoanRequested env cfg ev w"
| "handle env cfg w (LoanRecovered lid) = handleLoanRecovered env lid w"
| "handle env cfg w (LoanExpired lid) = handleLoanExpired env lid w"

definition run :: "deps \<Rightarrow> DeployerConfig \<Rightarrow> event list \<Rightarrow> world \<Rightarrow> world" where
  "run env cfg evs w = foldl (handle env cfg) w evs"

subsection \<open>Observations used by the properties\<close>

text \<open>The timer delays of a trace, in order.\<close>

fun sleeps :: "effect list \<Rightarrow> nat list" where
  "sleeps [] = []"
| "sleeps (Sleep ms # t) = ms # sleeps t"
| "sleeps (e # t) = sleeps t"




text \<open>The invariants of the data model on one record, on the store, and on every
  record that was ever written.\<close>

definition record_ok :: "DeploymentRecord \<Rightarrow> bool" where
  "record_ok r \<longleftrightarrow>
     (status r = Deployed \<longrightarrow>
        programId r \<noteq> None \<and> deployTxSignature r \<noteq> None \<and> setDeployedTxSignature r \<noteq> None) \<and>
     (status r = Recovered \<longrightarrow> recoveryTxSignature r \<noteq> None)"

definition store_ok :: "world \<Rightarrow> bool" where
  "store_ok w \<longleftrightarrow> (\<forall>lid r. db w lid = Some r \<longrightarrow> record_ok r)"

definition writes_ok :: "world \<Rightarrow> bool" where
  "writes_ok w \<longleftrightarrow> (\<forall>r. SaveDeployment r \<in> set (trace w) \<longrightarrow> record_ok r)"

text \<open>Every record of the store sits under its own \<open>loanId\<close>, as \<open>saveDeployment\<close>
  stores it.\<close>

definition keyed :: "world \<Rightarrow> bool" where
  "keyed w \<longleftrightarrow> (\<forall>lid r. db w lid = Some r \<longrightarrow> loanId r = lid)"

text \<open>The path that \<open>fetchBinaryForLoan\<close> reads.\<close>

definition dummyBinaryPath :: "deps \<Rightarrow> DeployerConfig \<Rightarrow> string" where
  "dummyBinaryPath env cfg = path_join env (binaryStoragePath cfg) ''test-program.so''"

text \<open>A deployment dependency that always fails for a loan: the deployment transaction
  is always rejected, or the registration of the deployed program always fails (no admin
  keypair, or the instruction is always rejected).\<close>

definition always_fails :: "deps \<Rightarrow> string \<Rightarrow> bool" where
  "always_fails env lid \<longleftrightarrow>
     (\<forall>n b. isl (deployTransaction env n lid b)) \<or> \<not> adminWallet env \<or>
     (\<forall>n p. isl (setDeployedProgramRpc env n lid p))"

definition is_LoanRequested :: "event \<Rightarrow> bool" where
  "is_LoanRequested ev = (case ev of LoanRequested x \<Rightarrow> True | _ \<Rightarrow> False)"

subsection \<open>A concrete scenario\<close>

text \<open>
  Loan 42 of the end-to-end scenario: a short binary with the ELF magic in the storage
  directory, three attempts at most with a base delay of 5000 ms, and a deployer PDA that
  already holds one SOL. In \<open>flaky_env\<close> the deployment transaction is rejected in the
  attempts numbered 0 and 1 and accepted afterwards; in \<open>failing_env\<close> it is always
  rejected, in \<open>steady_env\<close> always accepted. Closing a program credits two SOL.
\<close>

text \<open>
  What \<open>new PublicKey(text)\<close> accepts: a text of base-58 digits that decodes to 32 bytes,
  a leading \<open>1\<close> standing for a zero byte.
\<close>

definition base58_alphabet :: string where
  "base58_alphabet = ''123456789ABCDEFGHJKLMNPQRSTUVWXYZabcdefghijkmnopqrstuvwxyz''"

fun position :: "char \<Rightarrow> string \<Rightarrow> nat option" where
  "position c [] = None"
| "position c (x # xs) = (if c = x then Some 0 else map_option Suc (position c xs))"

fun base58_number :: "string \<Rightarrow> nat \<Rightarrow> nat option" where
  "base58_number [] acc = Some acc"
| "base58_number (c # cs) acc =
     (case position c base58_alphabet of
        None \<Rightarrow> None
      | Some d \<Rightarrow> base58_number cs (acc * 58 + d))"

definition bs58_decoded_length :: "string \<Rightarrow> nat option" where
  "bs58_decoded_length s =
     (case base58_number s 0 of
        None \<Rightarrow> None
      | Some n \<Rightarrow> Some (length (takeWhile (\<lambda>c. c = CHR ''1'') s) + (bitlen n + 7) div 8))"

definition isBase58Key :: "string \<Rightarrow> bool" where
  "isBase58Key s \<longleftrightarrow> bs58_decoded_length s = Some 32"

definition example_program :: string where
  "example_program = ''A4EhtzPrshoWnJ5cJEWFy6ZfWfbtjbXLecD4Zy5CAPJj''"

definition example_buffer :: string where
  "example_buffer = ''2Qyz8m4YvmAe5w3H4r5hthaLk4zNPEWRr5SmpQV2XmQV''"

definition example_binary :: "byte list" where
  "example_binary = [0x7F, 0x45, 0x4C, 0x46, 2, 1, 1, 0]"

text \<open>The SHA-256 digest of \<open>example_binary\<close>, in hex; the digest function of the
  example environment gives it for every input.\<close>

definition example_digest :: string where
  "example_digest = ''e94466faac02d08efbb3109dbe52d0c13c5a53859e328d50dbeb2e6f0ee89871''"

definition example_config :: DeployerConfig where
  "example_config = \<lparr>binaryStoragePath = ''binaries'', maxRetries = 3, retryDelayMs = 5000\<rparr>"

definition flaky_env :: deps where
  "flaky_env =
     \<lparr>sha256hex = (\<lambda>b. example_digest),
      path_join = (\<lambda>a b. a @ ''/'' @ b),
      adminWallet = True,
      isPublicKey = isBase58Key,
      deployTransaction = (\<lambda>n lid b.
         if n < 2 then Inl (Error ''Transaction simulation failed'')
         else Inr (example_program, example_buffer, ''sigDeploy'')),
      setDeployedProgramRpc = (\<lambda>n lid p. Inr ''sigSet''),
      closeTransaction = (\<lambda>n lid p. Closed 2000000000 ''sigClose''),
      returnReclaimedSolRpc = (\<lambda>n lid a. Inr ''sigReturn''),
      balanceAfterReturn = (\<lambda>b a. b - a)\<rparr>"

definition failing_env :: deps where
  "failing_env =
     flaky_env\<lparr>deployTransaction := (\<lambda>n lid b. Inl (Error ''Transaction simulation failed''))\<rparr>"


definition example_event :: LoanRequestedEvent where
  "example_event = \<lparr>ev_loanId = ''42'', ev_borrower = ''Bxyz'', ev_principal = ''5000000000''\<rparr>"

definition fresh_world :: world where
  "fresh_world =
     \<lparr>db = Map.empty,
      files = [''binaries/test-program.so'' \<mapsto> example_binary],
      clock = 1700000000000,
      deployerPdaBalance = 1000000000,
      attemptCount = 0,
      recoveries = 0,
      trace = []\<rparr>"

text \<open>A record of loan 42 in a given status, with or without a program.\<close>

definition example_record :: "Status \<Rightarrow> string option \<Rightarrow> DeploymentRecord" where
  "example_record st pid =
     \<lparr>loanId = ''42'', borrower = ''Bxyz'', programId = pid,
      bufferAccount = map_option (\<lambda>p. example_buffer) pid,
      deployTxSignature = map_option (\<lambda>p. ''sigDeploy'') pid,
      setDeployedTxSignature = map_option (\<lambda>p. ''sigSet'') pid,
      recoveryTxSignature = None,
      status = st, error = None, createdAt = 1700000000000, updatedAt = 1700000000000,
      binaryHash = None, principal = ''5000000000''\<rparr>"

definition world_with :: "DeploymentRecord \<Rightarrow> world" where
  "world_with r = fresh_world\<lparr>db := [''42'' \<mapsto> r]\<rparr>"

section \<open>Validation of binaries\<close>

lemma subarray_0_4: "subarray bs 0 4 = take 4 bs"
  by (simp add: subarray_def Let_def min_def)

lemma take4_elfMagic_iff: "take 4 bs = elfMagic \<longleftrightarrow> starts_with_elf_magic bs"
proof
  assume h: "take 4 bs = elfMagic"
  then have len: "length (take 4 bs) = 4" by (simp add: elfMagic_def)
  then have l4: "4 \<le> length bs" by simp
  have "\<And>i. i < 4 \<Longrightarrow> bs ! i = elfMagic ! i"
    using h nth_take [of _ 4 bs] by metis
  then have "bs ! 0 = elfMagic ! 0" "bs ! 1 = elfMagic ! 1" "bs ! 2 = elfMagic ! 2"
    "bs ! 3 = elfMagic ! 3" by simp_all
  then show "starts_with_elf_magic bs"
    using l4 by (simp add: starts_with_elf_magic_def elfMagic_def)
next
  assume h: "starts_with_elf_magic bs"
  then have l4: "4 \<le> length bs" by (simp add: starts_with_elf_magic_def)
  have len: "length (take 4 bs) = length elfMagic" using l4 by (simp add: elfMagic_def)
  show "take 4 bs = elfMagic"
  proof (rule nth_equalityI [OF len])
    fix i assume "i < length (take 4 bs)"
    then have i4: "i < 4" by simp
    then consider "i = 0" | "i = 1" | "i = 2" | "i = 3" by linarith
    then show "take 4 bs ! i = elfMagic ! i"
      using h by cases (simp_all add: starts_with_elf_magic_def elfMagic_def)
  qed
qed

text \<open>
  Claim C7. For every byte sequence, \<open>validateBinary\<close> answers invalid with reason
  "Empty binary" on zero-length input; invalid with reason "Invalid ELF header" when the
  input is non-empty and its first four bytes are not \<open>7F 45 4C 46\<close> (which covers every
  input shorter than four bytes); invalid with the reason "Binary too large (>100MB)", a
  reason that starts with "Binary too large", when the header is right and the input has
  more than 104,857,600 bytes; and valid, with no reason, otherwise. The order of the
  checks is empty, header, size.
\<close>

theorem validateBinary_first_match:
  "(length bs = 0 \<longrightarrow>
      validateBinary bs = \<lparr>valid = False, reason = Some ''Empty binary''\<rparr>) \<and>
   (length bs \<noteq> 0 \<and> \<not> starts_with_elf_magic bs \<longrightarrow>
      validateBinary bs = \<lparr>valid = False, reason = Some ''Invalid ELF header''\<rparr>) \<and>
   (0 < length bs \<and> length bs < 4 \<longrightarrow>
      validateBinary bs = \<lparr>valid = False, reason = Some ''Invalid ELF header''\<rparr>) \<and>
   (starts_with_elf_magic bs \<and> 104857600 < length bs \<longrightarrow>
      validateBinary bs = \<lparr>valid = False, reason = Some ''Binary too large (>100MB)''\<rparr> \<and>
      prefix ''Binary too large'' (the (reason (validateBinary bs)))) \<and>
   (starts_with_elf_magic bs \<and> length bs \<le> 104857600 \<longrightarrow>
      validateBinary bs = \<lparr>valid = True, reason = None\<rparr>)"
proof -
  have magic_len: "starts_with_elf_magic bs \<Longrightarrow> 4 \<le> length bs"
    by (simp add: starts_with_elf_magic_def)
  have c1: "length bs = 0 \<longrightarrow>
      validateBinary bs = \<lparr>valid = False, reason = Some ''Empty binary''\<rparr>"
    by (simp add: validateBinary_def)
  have c2: "length bs \<noteq> 0 \<and> \<not> starts_with_elf_magic bs \<longrightarrow>
      validateBinary bs = \<lparr>valid = False, reason = Some ''Invalid ELF header''\<rparr>"
    by (simp add: validateBinary_def subarray_0_4 take4_elfMagic_iff)
  have c3: "0 < length bs \<and> length bs < 4 \<longrightarrow>
      validateBinary bs = \<lparr>valid = False, reason = Some ''Invalid ELF header''\<rparr>"
    using c2 magic_len by fastforce
  have c4: "starts_with_elf_magic bs \<and> 104857600 < length bs \<longrightarrow>
      validateBinary bs = \<lparr>valid = False, reason = Some ''Binary too large (>100MB)''\<rparr> \<and>
      prefix ''Binary too large'' (the (reason (validateBinary bs)))"
    using magic_len by (simp add: validateBinary_def subarray_0_4 take4_elfMagic_iff)
  have c5: "starts_with_elf_magic bs \<and> length bs \<le> 104857600 \<longrightarrow>
      validateBinary bs = \<lparr>valid = True, reason = None\<rparr>"
    using magic_len by (auto simp: validateBinary_def subarray_0_4 take4_elfMagic_iff)
  show ?thesis using c1 c2 c3 c4 c5 by blast
qed

text \<open>
  The five cases at concrete inputs: the empty buffer, a three-byte prefix of the magic, a
  ten-byte input with another header, the magic followed by 104,857,597 zero bytes (one
  byte over the limit), and a short well-formed input.
\<close>

lemma elfMagic_append_starts: "starts_with_elf_magic (elfMagic @ xs)"
  by (simp add: starts_with_elf_magic_def elfMagic_def)

lemma oversized_length: "length (elfMagic @ replicate 104857597 (0::byte)) = 104857601"
  by (simp only: length_append length_replicate elfMagic_def list.size)

lemma oversized_exceeds: "104857600 < length (elfMagic @ replicate 104857597 (0::byte))"
  unfolding oversized_length by simp

theorem validateBinary_first_match_witness:
  "validateBinary [] = \<lparr>valid = False, reason = Some ''Empty binary''\<rparr> \<and>
   validateBinary [0x7F, 0x45, 0x4C] =
     \<lparr>valid = False, reason = Some ''Invalid ELF header''\<rparr> \<and>
   validateBinary [0x4D, 0x5A, 0x90, 0, 3, 0, 0, 0, 4, 0] =
     \<lparr>valid = False, reason = Some ''Invalid ELF header''\<rparr> \<and>
   validateBinary (elfMagic @ replicate 104857597 0) =
     \<lparr>valid = False, reason = Some ''Binary too large (>100MB)''\<rparr> \<and>
   validateBinary [0x7F, 0x45, 0x4C, 0x46, 2, 1, 1, 0] = \<lparr>valid = True, reason = None\<rparr>"
proof -
  note c1 = validateBinary_first_match [THEN conjunct1, THEN mp]
  note c2 = validateBinary_first_match [THEN conjunct2, THEN conjunct1, THEN mp]
  note c3 = validateBinary_first_match
    [THEN conjunct2, THEN conjunct2, THEN conjunct1, THEN mp]
  note c4 = validateBinary_first_match
    [THEN conjunct2, THEN conjunct2, THEN conjunct2, THEN conjunct1, THEN mp, THEN conjunct1]
  note c5 = validateBinary_first_match
    [THEN conjunct2, THEN conjunct2, THEN conjunct2, THEN conjunct2, THEN mp]
  have a: "length ([]::byte list) = 0" by simp
  have b: "0 < length [0x7F, 0x45, 0x4C :: byte] \<and> length [0x7F, 0x45, 0x4C :: byte] < 4"
    by simp
  have c: "length [0x4D, 0x5A, 0x90, 0, 3, 0, 0, 0, 4, 0 :: byte] \<noteq> 0 \<and>
      \<not> starts_with_elf_magic [0x4D, 0x5A, 0x90, 0, 3, 0, 0, 0, 4, 0]"
    by (simp add: starts_with_elf_magic_def)
  have d: "starts_with_elf_magic (elfMagic @ replicate 104857597 0) \<and>
      104857600 < length (elfMagic @ replicate 104857597 (0::byte))"
    using elfMagic_append_starts oversized_exceeds by (rule conjI)
  have e: "starts_with_elf_magic [0x7F, 0x45, 0x4C, 0x46, 2, 1, 1, 0] \<and>
      length [0x7F, 0x45, 0x4C, 0x46, 2, 1, 1, 0 :: byte] \<le> 104857600"
    by (simp add: starts_with_elf_magic_def)
  show ?thesis
    by (intro conjI) (rule c1 [OF a], rule c3 [OF b], rule c2 [OF c], rule c4 [OF d],
      rule c5 [OF e])
qed

section \<open>The buffer-write instructions cover the binary\<close>

lemma u32_roundtrip: "u32_of_le_bytes (u32_le_bytes w) = w"
  unfolding u32_of_le_bytes_def u32_le_bytes_def
  apply simp
  apply (rule bit_word_eqI)
  apply (auto simp: bit_simps)
  subgoal for n by (cases "n < 24") simp_all
  done

lemma chunkCount_step:
  assumes "offset < len"
  shows "chunkCount len offset = Suc (chunkCount len (offset + chunkSize))"
proof (cases "len - offset < 900")
  case True
  then have z: "len - (offset + 900) = 0" by simp
  have "900 \<le> len - offset + 899" "len - offset + 899 < 2 * 900"
    using assms True by simp_all
  then have "(len - offset + 899) div 900 = 1"
    by (simp add: div_nat_eqI)
  then show ?thesis
    by (simp add: chunkCount_def chunkSize_def z)
next
  case False
  then have "len - offset + 899 = (len - (offset + 900) + 899) + 900" by simp
  then have "(len - offset + 899) div 900 = Suc ((len - (offset + 900) + 899) div 900)"
    by (simp only: div_add_self2)
  then show ?thesis
    by (simp add: chunkCount_def chunkSize_def)
qed

lemma chunkCount_done: "\<not> offset < len \<Longrightarrow> chunkCount len offset = 0"
  unfolding chunkCount_def chunkSize_def by simp

lemma writeLoop_eq:
  "writeLoop buffer authority dat offset instructions =
     instructions @ map (\<lambda>i. writeInstruction buffer authority dat (offset + i * chunkSize))
       [0..<chunkCount (length dat) offset]"
proof (induction buffer authority dat offset instructions rule: writeLoop.induct)
  case (1 buffer authority dat offset instructions)
  show ?case
  proof (cases "offset < length dat")
    case True
    have "map (\<lambda>i. writeInstruction buffer authority dat (offset + i * chunkSize))
            [0..<Suc (chunkCount (length dat) (offset + chunkSize))] =
          writeInstruction buffer authority dat offset #
          map (\<lambda>i. writeInstruction buffer authority dat (offset + chunkSize + i * chunkSize))
            [0..<chunkCount (length dat) (offset + chunkSize)]"
      by (simp only: map_upt_Suc) (simp add: ac_simps)
    then show ?thesis
      using True "1.IH" [OF True] chunkCount_step [OF True]
      by (subst writeLoop.simps) simp
  next
    case False
    then show ?thesis
      by (subst writeLoop.simps) (simp add: chunkCount_done)
  qed
qed

lemma ceil_div: "nat \<lceil>real n / 900\<rceil> = (n + 899) div 900"
proof -
  define q where "q = (n + 899) div 900"
  define r where "r = (n + 899) mod 900"
  have e: "n + 899 = 900 * q + r" by (simp add: q_def r_def)
  have r: "r < 900" by (simp add: r_def)
  have "n \<le> 900 * q" using e r by linarith
  then have "real n \<le> real (900 * q)" by (rule of_nat_mono)
  then have up: "real n / 900 \<le> of_int (int q)" by simp
  have "900 * q < n + 900" using e r by linarith
  then have "real (900 * q) < real (n + 900)" by (simp only: of_nat_less_iff)
  then have lo: "of_int (int q) - 1 < real n / 900" by simp
  have "\<lceil>real n / 900\<rceil> = int q" using lo up by (rule ceiling_unique)
  then show ?thesis by (simp add: q_def)
qed

lemma createWriteBufferInstructions_eq:
  "createWriteBufferInstructions buffer authority dat =
     map (\<lambda>i. writeInstruction buffer authority dat (i * chunkSize))
       [0..<chunkCount (length dat) 0]"
  by (simp add: createWriteBufferInstructions_def writeLoop_eq)

lemma chunkCount_0: "chunkCount len 0 = (len + 899) div 900"
  by (simp add: chunkCount_def chunkSize_def)

lemma length_u32_le_bytes: "length (u32_le_bytes w) = 4"
  by (simp add: u32_le_bytes_def)

lemma recorded_offset_writeInstruction:
  "recorded_offset (writeInstruction buffer authority dat offset) = word_of_nat offset"
  by (simp add: recorded_offset_def writeInstruction_def Let_def Uint32Array_buffer_def
      length_u32_le_bytes u32_roundtrip)

lemma subarray_chunk:
  "offset \<le> length dat \<Longrightarrow>
     subarray dat offset (min (offset + chunkSize) (length dat)) = take chunkSize (drop offset dat)"
  by (simp add: subarray_def Let_def min_def)

lemma chunk_payload_writeInstruction:
  "offset \<le> length dat \<Longrightarrow>
     chunk_payload (writeInstruction buffer authority dat offset) = take chunkSize (drop offset dat)"
  by (simp add: chunk_payload_def writeInstruction_def Let_def Uint32Array_buffer_def
      length_u32_le_bytes subarray_chunk)

lemma concat_chunks:
  "concat (map (\<lambda>i. take n (drop (i * n) xs)) [0..<k]) = take (k * n) xs"
proof (induction k)
  case 0
  show ?case by simp
next
  case (Suc k)
  have "take (k * n) xs @ take n (drop (k * n) xs) = take (k * n + n) xs"
    by (simp add: take_add)
  then show ?case using Suc by (simp add: ac_simps)
qed

lemma chunk_index_in_range:
  "i < chunkCount len 0 \<Longrightarrow> i * chunkSize < len"
proof -
  assume "i < chunkCount len 0"
  then have "Suc i \<le> (len + 899) div 900" by (simp add: chunkCount_0)
  then have "Suc i * 900 \<le> len + 899"
    using less_eq_div_iff_mult_less_eq [of 900 "Suc i" "len + 899"] by simp
  then show ?thesis by (simp add: chunkSize_def)
qed

lemma chunkCount_covers: "len \<le> chunkCount len 0 * chunkSize"
proof -
  have "len + 899 < (Suc ((len + 899) div 900)) * 900"
    using dividend_less_div_times [of 900 "len + 899"] by simp
  then show ?thesis by (simp add: chunkCount_0 chunkSize_def)
qed

lemma payloads_concat:
  "concat (map chunk_payload (createWriteBufferInstructions buffer authority dat)) = dat"
proof -
  have "map chunk_payload (createWriteBufferInstructions buffer authority dat) =
        map (\<lambda>i. take chunkSize (drop (i * chunkSize) dat)) [0..<chunkCount (length dat) 0]"
    unfolding createWriteBufferInstructions_eq map_map
    by (rule map_cong [OF refl])
      (simp add: chunk_payload_writeInstruction chunk_index_in_range less_imp_le)
  then show ?thesis
    by (simp only: concat_chunks) (simp add: chunkCount_covers)
qed

lemma length_createWriteBufferInstructions:
  "length (createWriteBufferInstructions buffer authority dat) = (length dat + 899) div 900"
  by (simp add: createWriteBufferInstructions_eq chunkCount_0)

lemma nth_createWriteBufferInstructions:
  "i < (length dat + 899) div 900 \<Longrightarrow>
     createWriteBufferInstructions buffer authority dat ! i =
       writeInstruction buffer authority dat (i * chunkSize)"
  by (simp add: createWriteBufferInstructions_eq chunkCount_0)

lemma unat_recorded_offset:
  "unat (recorded_offset (writeInstruction buffer authority dat offset)) = offset mod 2 ^ 32"
  by (simp add: recorded_offset_writeInstruction unat_of_nat)

text \<open>
  Claim C9, amended. For every binary, empty or not, \<open>createWriteBufferInstructions\<close>
  yields \<open>ceil(len/900)\<close> instructions; each chunk has at most 900 bytes; the chunks,
  concatenated in order, are the binary; and the offset recorded in instruction \<open>i\<close>
  (counted from 0) is \<open>900 * i\<close> modulo \<open>2^32\<close>, the offset field having 32 bits.
  So the recorded offsets are 0, 900, 1800, ... for every binary of at most \<open>2^32\<close>
  bytes.
\<close>

theorem createWriteBufferInstructions_chunks:
  "length (createWriteBufferInstructions buffer authority dat) = nat \<lceil>real (length dat) / 900\<rceil> \<and>
   (\<forall>i < length (createWriteBufferInstructions buffer authority dat).
      length (chunk_payload (createWriteBufferInstructions buffer authority dat ! i)) \<le> 900 \<and>
      unat (recorded_offset (createWriteBufferInstructions buffer authority dat ! i)) =
        (900 * i) mod 2 ^ 32 \<and>
      (length dat \<le> 2 ^ 32 \<longrightarrow>
         unat (recorded_offset (createWriteBufferInstructions buffer authority dat ! i)) = 900 * i)) \<and>
   concat (map chunk_payload (createWriteBufferInstructions buffer authority dat)) = dat"
proof (intro conjI allI impI)
  show "length (createWriteBufferInstructions buffer authority dat) = nat \<lceil>real (length dat) / 900\<rceil>"
    by (simp only: length_createWriteBufferInstructions ceil_div)
next
  fix i assume "i < length (createWriteBufferInstructions buffer authority dat)"
  then have i: "i < (length dat + 899) div 900"
    by (simp only: length_createWriteBufferInstructions)
  then have r: "i * chunkSize < length dat"
    using chunk_index_in_range [of i "length dat"] by (simp add: chunkCount_0)
  show "length (chunk_payload (createWriteBufferInstructions buffer authority dat ! i)) \<le> 900"
    using r by (simp add: nth_createWriteBufferInstructions [OF i]
        chunk_payload_writeInstruction chunkSize_def)
  show m: "unat (recorded_offset (createWriteBufferInstructions buffer authority dat ! i)) =
        (900 * i) mod 2 ^ 32"
    by (simp add: nth_createWriteBufferInstructions [OF i] unat_recorded_offset chunkSize_def
        mult.commute)
  assume "length dat \<le> 2 ^ 32"
  then have "900 * i < 2 ^ 32" using r by (simp add: chunkSize_def mult.commute)
  then show "unat (recorded_offset (createWriteBufferInstructions buffer authority dat ! i)) = 900 * i"
    using m by simp
next
  show "concat (map chunk_payload (createWriteBufferInstructions buffer authority dat)) = dat"
    by (rule payloads_concat)
qed

text \<open>
  As the claim is stated, for every non-empty binary, it fails on a binary of
  4,294,967,401 bytes: instruction 4772186 starts at byte 4,294,967,400 of the binary,
  and the offset it records is 104.
\<close>

theorem createWriteBufferInstructions_offset_wraps:
  "4772186 < length (createWriteBufferInstructions ''B'' ''A'' (replicate 4294967401 0)) \<and>
   unat (recorded_offset
     (createWriteBufferInstructions ''B'' ''A'' (replicate 4294967401 0) ! 4772186)) = 104 \<and>
   (104::nat) \<noteq> 900 * 4772186"
proof -
  have len: "length (replicate 4294967401 (0::byte)) = 4294967401"
    by (simp only: length_replicate)
  have cnt: "length (createWriteBufferInstructions ''B'' ''A'' (replicate 4294967401 0)) = 4772187"
    unfolding length_createWriteBufferInstructions len by simp
  have i: "4772186 < (length (replicate 4294967401 (0::byte)) + 899) div 900"
    unfolding len by simp
  have "unat (recorded_offset
     (createWriteBufferInstructions ''B'' ''A'' (replicate 4294967401 0) ! 4772186)) = 104"
    unfolding nth_createWriteBufferInstructions [OF i] unat_recorded_offset chunkSize_def
    by simp
  then show ?thesis unfolding cnt by simp
qed


text \<open>A binary of 2000 bytes: three instructions, the last one at offset 1800.\<close>

theorem createWriteBufferInstructions_chunks_witness:
  "length (createWriteBufferInstructions ''B'' ''A'' (replicate 2000 7)) = 3 \<and>
   length (chunk_payload (createWriteBufferInstructions ''B'' ''A'' (replicate 2000 7) ! 2)) \<le> 900 \<and>
   unat (recorded_offset (createWriteBufferInstructions ''B'' ''A'' (replicate 2000 7) ! 2)) = 1800 \<and>
   concat (map chunk_payload (createWriteBufferInstructions ''B'' ''A'' (replicate 2000 7))) =
     replicate 2000 7"
proof -
  note t = createWriteBufferInstructions_chunks [of "''B''" "''A''" "replicate 2000 7"]
  have cnt: "length (createWriteBufferInstructions ''B'' ''A'' (replicate 2000 7)) = 3"
    using t [THEN conjunct1] by simp
  then have i: "2 < length (createWriteBufferInstructions ''B'' ''A'' (replicate 2000 7))"
    by simp
  have small: "length (replicate 2000 (7::byte)) \<le> 2 ^ 32" by simp
  note at2 = t [THEN conjunct2, THEN conjunct1, rule_format, OF i]
  have "unat (recorded_offset (createWriteBufferInstructions ''B'' ''A'' (replicate 2000 7) ! 2)) = 1800"
    using at2 small by simp
  then show ?thesis
    using cnt at2 t [THEN conjunct2, THEN conjunct2] by simp
qed

section \<open>Lemmas on the orchestrator\<close>

lemma sleeps_append: "sleeps (a @ b) = sleeps a @ sleeps b"
  by (induction a rule: sleeps.induct) simp_all

lemma saveDeployment_simps:
  "db (saveDeployment r w) = (db w)(loanId r \<mapsto> r)"
  "files (saveDeployment r w) = files w"
  "clock (saveDeployment r w) = clock w"
  "attemptCount (saveDeployment r w) = attemptCount w"
  "recoveries (saveDeployment r w) = recoveries w"
  "deployerPdaBalance (saveDeployment r w) = deployerPdaBalance w"
  "trace (saveDeployment r w) = trace w @ [SaveDeployment r]"
  by (simp_all add: saveDeployment_def)

lemma handleLoanRequested_guard:
  "getDeployment w (ev_loanId ev) = Some d \<Longrightarrow> status d \<noteq> Failed \<Longrightarrow>
     handleLoanRequested env cfg ev w = w"
  by (simp add: handleLoanRequested_def alreadyProcessed_def)

lemmas PD_unfold = processDeployment_def Let_def fetchBinaryForLoan_def storeBinary_def
  writeFile_def deployProgram_def setDeployedProgram_def saveDeployment_def

lemmas PD_splits = sum.splits prod.splits option.splits if_splits

lemma PD_frame:
  assumes "processDeployment env cfg d w = (res, d', w')"
  shows "loanId d' = loanId d" and "attemptCount w' = attemptCount w + 1"
    and "recoveries w' = recoveries w" and "deployerPdaBalance w' = deployerPdaBalance w"
    and "clock w' = clock w" and "sleeps (trace w') = sleeps (trace w)"
    and "borrower d' = borrower d"
  using assms by (auto simp: PD_unfold sleeps_append split: PD_splits)

lemma PD_db:
  assumes "processDeployment env cfg d w = (res, d', w')"
  shows "\<exists>r. db w' = (db w)(loanId d \<mapsto> r) \<and> loanId r = loanId d \<and>
           (res = None \<longrightarrow> r = d') \<and> (res \<noteq> None \<longrightarrow> status r = Deploying)"
  using assms by (auto simp: PD_unfold split: PD_splits)

lemma PD_result:
  assumes "processDeployment env cfg d w = (res, d', w')"
  shows "(res = None \<longrightarrow> status d' = Deployed \<and> programId d' \<noteq> None \<and>
            deployTxSignature d' \<noteq> None \<and> setDeployedTxSignature d' \<noteq> None) \<and>
         (res \<noteq> None \<longrightarrow> status d' = Deploying)"
  using assms by (auto simp: PD_unfold split: PD_splits)

lemma retryLoop_done:
  "\<not> attempts < maxRetries cfg \<Longrightarrow> retryLoop env cfg attempts d w = (d, w)"
  by (subst retryLoop.simps) simp

lemma retryLoop_success:
  "attempts < maxRetries cfg \<Longrightarrow> processDeployment env cfg d w = (None, d', w') \<Longrightarrow>
     retryLoop env cfg attempts d w = (d', w')"
  by (subst retryLoop.simps) simp

lemma retryLoop_exhausted:
  "attempts < maxRetries cfg \<Longrightarrow> processDeployment env cfg d w = (Some e, d', w') \<Longrightarrow>
   maxRetries cfg \<le> attempts + 1 \<Longrightarrow>
     retryLoop env cfg attempts d w =
       (d'\<lparr>status := Failed, error := Some (String e)\<rparr>,
        saveDeployment (d'\<lparr>status := Failed, error := Some (String e)\<rparr>) w')"
  by (subst retryLoop.simps) (simp add: Let_def)

lemma retryLoop_retry:
  "attempts + 1 < maxRetries cfg \<Longrightarrow> processDeployment env cfg d w = (Some e, d', w') \<Longrightarrow>
     retryLoop env cfg attempts d w =
       retryLoop env cfg (attempts + 1) d' (sleep (retryDelayMs cfg * 2 ^ attempts) w')"
  by (subst retryLoop.simps) (simp add: Let_def)

text \<open>A rule for loop invariants: \<open>I\<close> holds before each attempt, \<open>Q\<close> when the loop is left.\<close>

lemma retryLoop_rule:
  assumes init: "I attempts d w"
    and success: "\<And>attempts d w d' w'. I attempts d w \<Longrightarrow> attempts < maxRetries cfg \<Longrightarrow>
        processDeployment env cfg d w = (None, d', w') \<Longrightarrow> Q d' w'"
    and exhausted: "\<And>attempts d w e d' w'. I attempts d w \<Longrightarrow> attempts < maxRetries cfg \<Longrightarrow>
        processDeployment env cfg d w = (Some e, d', w') \<Longrightarrow> maxRetries cfg \<le> attempts + 1 \<Longrightarrow>
        Q (d'\<lparr>status := Failed, error := Some (String e)\<rparr>)
          (saveDeployment (d'\<lparr>status := Failed, error := Some (String e)\<rparr>) w')"
    and retry: "\<And>attempts d w e d' w'. I attempts d w \<Longrightarrow> attempts + 1 < maxRetries cfg \<Longrightarrow>
        processDeployment env cfg d w = (Some e, d', w') \<Longrightarrow>
        I (attempts + 1) d' (sleep (retryDelayMs cfg * 2 ^ attempts) w')"
    and skipped: "\<And>attempts d w. I attempts d w \<Longrightarrow> \<not> attempts < maxRetries cfg \<Longrightarrow> Q d w"
  shows "Q (fst (retryLoop env cfg attempts d w)) (snd (retryLoop env cfg attempts d w))"
  using init
proof (induction "maxRetries cfg - attempts" arbitrary: attempts d w)
  case 0
  then have "\<not> attempts < maxRetries cfg" by simp
  then show ?case using skipped [OF "0.prems"] by (simp add: retryLoop_done)
next
  case (Suc k)
  then have lt: "attempts < maxRetries cfg" by simp
  obtain res d' w' where pd: "processDeployment env cfg d w = (res, d', w')"
    by (cases "processDeployment env cfg d w") auto
  show ?case
  proof (cases res)
    case None
    then show ?thesis
      using success [OF Suc.prems lt] pd by (simp add: retryLoop_success [OF lt])
  next
    case (Some e)
    show ?thesis
    proof (cases "attempts + 1 < maxRetries cfg")
      case True
      have "k = maxRetries cfg - (attempts + 1)" using Suc.hyps(2) by simp
      moreover have "I (attempts + 1) d' (sleep (retryDelayMs cfg * 2 ^ attempts) w')"
        using retry [OF Suc.prems True] pd Some by simp
      ultimately show ?thesis
        using Suc.hyps(1) pd Some by (simp add: retryLoop_retry [OF True])
    next
      case False
      then have "maxRetries cfg \<le> attempts + 1" by simp
      then show ?thesis
        using exhausted [OF Suc.prems lt] pd Some by (simp add: retryLoop_exhausted [OF lt])
    qed
  qed
qed

lemma PD_other:
  "processDeployment env cfg d w = (res, d', w') \<Longrightarrow> k \<noteq> loanId d \<Longrightarrow> db w' k = db w k"
  using PD_db [of env cfg d w res d' w'] by auto

lemma PD_self:
  "processDeployment env cfg d w = (res, d', w') \<Longrightarrow>
     \<exists>r. db w' (loanId d) = Some r \<and> loanId r = loanId d"
  using PD_db [of env cfg d w res d' w'] by auto

lemma PD_self_success:
  "processDeployment env cfg d w = (None, d', w') \<Longrightarrow> db w' (loanId d) = Some d'"
  using PD_db [of env cfg d w None d' w'] by auto

lemma PD_keyed:
  "processDeployment env cfg d w = (res, d', w') \<Longrightarrow> keyed w \<Longrightarrow> keyed w'"
  using PD_db [of env cfg d w res d' w'] by (auto simp: keyed_def split: if_splits)

lemma PD_store_ok:
  assumes "processDeployment env cfg d w = (res, d', w')" and "store_ok w"
  shows "store_ok w'"
proof -
  obtain r where r: "db w' = (db w)(loanId d \<mapsto> r)" "res = None \<longrightarrow> r = d'"
    "res \<noteq> None \<longrightarrow> status r = Deploying"
    using PD_db [OF assms(1)] by auto
  have "record_ok r"
    using r(2,3) PD_result [OF assms(1)] by (cases res) (auto simp: record_ok_def)
  then show ?thesis using assms(2) r(1) by (auto simp: store_ok_def)
qed

lemma PD_writes_ok:
  assumes "processDeployment env cfg d w = (res, d', w')" and "writes_ok w"
  shows "writes_ok w'"
  using assms by (auto simp: PD_unfold writes_ok_def record_ok_def split: PD_splits)

lemma PD_files:
  "processDeployment env cfg d w = (res, d', w') \<Longrightarrow>
     files w' (dummyBinaryPath env cfg) = files w (dummyBinaryPath env cfg)"
  by (auto simp: PD_unfold dummyBinaryPath_def binaryPath_def split: PD_splits)

lemma PD_deploy_fails:
  "processDeployment env cfg d w = (res, d', w') \<Longrightarrow>
   files w (dummyBinaryPath env cfg) = Some bin \<Longrightarrow>
   isl (deployTransaction env (attemptCount w) (loanId d) bin) \<Longrightarrow> res \<noteq> None"
  by (auto simp: PD_unfold dummyBinaryPath_def binaryPath_def split: PD_splits)

lemma PD_succeeds:
  "processDeployment env cfg d w = (res, d', w') \<Longrightarrow>
   files w (dummyBinaryPath env cfg) = Some bin \<Longrightarrow> valid (validateBinary bin) \<Longrightarrow>
   deployTransaction env (attemptCount w) (loanId d) bin = Inr (pid, buf, sig) \<Longrightarrow>
   adminWallet env \<Longrightarrow> setDeployedProgramRpc env (attemptCount w) (loanId d) pid = Inr tx \<Longrightarrow>
     res = None"
  by (auto simp: PD_unfold dummyBinaryPath_def binaryPath_def split: PD_splits)

lemma PD_none:
  "processDeployment env cfg d w = (None, d', w') \<Longrightarrow>
     \<exists>bin pid buf sig tx. files w (dummyBinaryPath env cfg) = Some bin \<and>
       valid (validateBinary bin) \<and>
       deployTransaction env (attemptCount w) (loanId d) bin = Inr (pid, buf, sig) \<and>
       adminWallet env \<and> setDeployedProgramRpc env (attemptCount w) (loanId d) pid = Inr tx"
  by (auto simp: PD_unfold dummyBinaryPath_def split: PD_splits)

lemma PD_always_fails:
  assumes "processDeployment env cfg d w = (res, d', w')" and "always_fails env (loanId d)"
  shows "res \<noteq> None"
proof
  assume "res = None"
  then obtain bin pid buf sig tx where
    "deployTransaction env (attemptCount w) (loanId d) bin = Inr (pid, buf, sig)"
    "adminWallet env" "setDeployedProgramRpc env (attemptCount w) (loanId d) pid = Inr tx"
    using PD_none assms(1) by blast
  moreover have "\<not> isl (Inr (pid, buf, sig) :: js_error + (string \<times> string \<times> string))"
    "\<not> isl (Inr tx :: js_error + string)" by simp_all
  ultimately show False
    using assms(2) unfolding always_fails_def by metis
qed

lemma sleep_simps:
  "db (sleep ms w) = db w" "files (sleep ms w) = files w"
  "attemptCount (sleep ms w) = attemptCount w" "recoveries (sleep ms w) = recoveries w"
  "deployerPdaBalance (sleep ms w) = deployerPdaBalance w"
  "clock (sleep ms w) = clock w + ms"
  "trace (sleep ms w) = trace w @ [Sleep ms]"
  by (simp_all add: sleep_def)

lemma sleeps_SaveDeployment: "sleeps (t @ [SaveDeployment r]) = sleeps t"
  by (simp add: sleeps_append)

lemma sleeps_Sleep: "sleeps (t @ [Sleep ms]) = sleeps t @ [ms]"
  by (simp add: sleeps_append)

lemma retryLoop_attempts_and_delays:
  fixes env cfg d w0
  defines "r \<equiv> retryLoop env cfg 0 d w0"
  defines "a \<equiv> attemptCount (snd r) - attemptCount w0"
  shows "attemptCount w0 \<le> attemptCount (snd r) \<and> a \<le> maxRetries cfg \<and>
         (0 < maxRetries cfg \<longrightarrow> 0 < a) \<and> loanId (fst r) = loanId d \<and>
         sleeps (trace (snd r)) =
           sleeps (trace w0) @ map (\<lambda>k. retryDelayMs cfg * 2 ^ k) [0..<a - 1]"
proof -
  let ?f = "\<lambda>k. retryDelayMs cfg * 2 ^ k"
  let ?I = "\<lambda>attempts d' w. loanId d' = loanId d \<and> attemptCount w = attemptCount w0 + attempts \<and>
      (attempts = 0 \<or> attempts < maxRetries cfg) \<and>
      sleeps (trace w) = sleeps (trace w0) @ map ?f [0..<attempts]"
  let ?Q = "\<lambda>d' w'. attemptCount w0 \<le> attemptCount w' \<and> attemptCount w' - attemptCount w0 \<le> maxRetries cfg \<and>
      (0 < maxRetries cfg \<longrightarrow> 0 < attemptCount w' - attemptCount w0) \<and> loanId d' = loanId d \<and>
      sleeps (trace w') = sleeps (trace w0) @ map ?f [0..<attemptCount w' - attemptCount w0 - 1]"
  have "?Q (fst (retryLoop env cfg 0 d w0)) (snd (retryLoop env cfg 0 d w0))"
  proof (rule retryLoop_rule [where I = ?I and Q = ?Q])
    show "?I 0 d w0" by simp
  next
    fix attempts d1 w d' w'
    assume "?I attempts d1 w" "attempts < maxRetries cfg"
      "processDeployment env cfg d1 w = (None, d', w')"
    then show "?Q d' w'" using PD_frame [of env cfg d1 w None d' w'] by simp
  next
    fix attempts d1 w e d' w'
    assume "?I attempts d1 w" "attempts < maxRetries cfg"
      "processDeployment env cfg d1 w = (Some e, d', w')" "maxRetries cfg \<le> attempts + 1"
    then show "?Q (d'\<lparr>status := Failed, error := Some (String e)\<rparr>)
          (saveDeployment (d'\<lparr>status := Failed, error := Some (String e)\<rparr>) w')"
      using PD_frame [of env cfg d1 w "Some e" d' w']
      by (simp add: saveDeployment_simps sleeps_SaveDeployment)
  next
    fix attempts d1 w e d' w'
    assume "?I attempts d1 w" "attempts + 1 < maxRetries cfg"
      "processDeployment env cfg d1 w = (Some e, d', w')"
    then show "?I (attempts + 1) d' (sleep (retryDelayMs cfg * 2 ^ attempts) w')"
      using PD_frame [of env cfg d1 w "Some e" d' w']
      by (simp add: sleep_simps sleeps_Sleep)
  next
    fix attempts and d1 :: DeploymentRecord and w :: world
    assume "?I attempts d1 w" "\<not> attempts < maxRetries cfg"
    then show "?Q d1 w" by auto
  qed
  then show ?thesis by (simp add: r_def a_def)
qed

lemma retryLoop_fails_then_succeeds:
  assumes n: "n < maxRetries cfg"
    and bin: "files w0 (dummyBinaryPath env cfg) = Some bin" "valid (validateBinary bin)"
    and fails: "\<forall>i<n. isl (deployTransaction env (attemptCount w0 + i) (loanId d) bin)"
    and ok: "deployTransaction env (attemptCount w0 + n) (loanId d) bin = Inr (pid, buf, sig)"
    and admin: "adminWallet env"
    and reg: "setDeployedProgramRpc env (attemptCount w0 + n) (loanId d) pid = Inr tx"
  shows "status (fst (retryLoop env cfg 0 d w0)) = Deployed \<and>
         db (snd (retryLoop env cfg 0 d w0)) (loanId d) = Some (fst (retryLoop env cfg 0 d w0)) \<and>
         attemptCount (snd (retryLoop env cfg 0 d w0)) = attemptCount w0 + n + 1"
proof -
  let ?tp = "dummyBinaryPath env cfg"
  let ?I = "\<lambda>attempts d' w. loanId d' = loanId d \<and> attemptCount w = attemptCount w0 + attempts \<and>
      attempts \<le> n \<and> files w ?tp = Some bin"
  let ?Q = "\<lambda>d' w'. status d' = Deployed \<and> db w' (loanId d) = Some d' \<and>
      attemptCount w' = attemptCount w0 + n + 1"
  have at_n: "res = None"
    if "?I n d1 w" "processDeployment env cfg d1 w = (res, d', w')"
    for d1 :: DeploymentRecord and w :: world and res d' w'
    using that PD_succeeds [of env cfg d1 w res d' w' bin pid buf sig tx] bin(2) ok admin reg
    by simp
  have before_n: "res \<noteq> None"
    if "?I attempts d1 w" "attempts < n" "processDeployment env cfg d1 w = (res, d', w')"
    for attempts and d1 :: DeploymentRecord and w :: world and res d' w'
    using that PD_deploy_fails [of env cfg d1 w res d' w' bin] fails by simp
  show ?thesis
  proof (rule retryLoop_rule [where I = ?I and Q = ?Q])
    show "?I 0 d w0" using bin(1) by simp
  next
    fix attempts d1 w d' w'
    assume h: "?I attempts d1 w" "attempts < maxRetries cfg"
      "processDeployment env cfg d1 w = (None, d', w')"
    then have "attempts = n" using before_n [OF h(1) _ h(3)] by (cases "attempts < n") auto
    then show "?Q d' w'"
      using h PD_frame(2) [OF h(3)] PD_result [OF h(3)] PD_self_success [OF h(3)] by simp
  next
    fix attempts d1 w e d' w'
    assume h: "?I attempts d1 w" "attempts < maxRetries cfg"
      "processDeployment env cfg d1 w = (Some e, d', w')" "maxRetries cfg \<le> attempts + 1"
    then have "attempts = n" using n by simp
    then have False using at_n [OF _ h(3)] h(1) by simp
    then show "?Q (d'\<lparr>status := Failed, error := Some (String e)\<rparr>)
          (saveDeployment (d'\<lparr>status := Failed, error := Some (String e)\<rparr>) w')" ..
  next
    fix attempts d1 w e d' w'
    assume h: "?I attempts d1 w" "attempts + 1 < maxRetries cfg"
      "processDeployment env cfg d1 w = (Some e, d', w')"
    have "attempts \<noteq> n" using at_n [OF _ h(3)] h(1) by auto
    then show "?I (attempts + 1) d' (sleep (retryDelayMs cfg * 2 ^ attempts) w')"
      using h(1) PD_frame(1,2) [OF h(3)] PD_files [OF h(3)] by (simp add: sleep_simps)
  next
    fix attempts and d1 :: DeploymentRecord and w :: world
    assume "?I attempts d1 w" "\<not> attempts < maxRetries cfg"
    then show "?Q d1 w" using n by simp
  qed
qed

lemma backoff_doubles:
  "Suc k < length (map (\<lambda>k. (b::nat) * 2 ^ k) [0..<n]) \<Longrightarrow>
     map (\<lambda>k. b * 2 ^ k) [0..<n] ! Suc k = 2 * (map (\<lambda>k. b * 2 ^ k) [0..<n] ! k)"
  by simp


lemmas PR_unfold = processRecovery_def getDeployment_def Let_def closeProgram_def
  returnReclaimedSol_def recoveryFailed_def saveDeployment_def

lemmas PR_splits = sum.splits prod.splits option.splits if_splits close_outcome.splits

lemma processRecovery_attempts: "attemptCount (processRecovery env lid w) = attemptCount w"
  by (auto simp: PR_unfold split: PR_splits)

lemma handle_recovery_attempts:
  "\<not> is_LoanRequested ev \<Longrightarrow> attemptCount (handle env cfg w ev) = attemptCount w"
  by (cases ev)
    (simp_all add: is_LoanRequested_def handleLoanRecovered_def handleLoanExpired_def
      processRecovery_attempts)

lemma run_recovery_attempts:
  "\<forall>ev\<in>set evs. \<not> is_LoanRequested ev \<Longrightarrow> attemptCount (run env cfg evs w) = attemptCount w"
  unfolding run_def
  by (induction evs arbitrary: w) (simp_all add: handle_recovery_attempts)

lemma String_nonempty: "String e \<noteq> []"
  by (simp add: String_def)

lemma retryLoop_always_fails:
  assumes pos: "0 < maxRetries cfg" and af: "always_fails env (loanId d)"
  shows "status (fst (retryLoop env cfg 0 d w0)) = Failed \<and>
         (\<exists>e. error (fst (retryLoop env cfg 0 d w0)) = Some (String e)) \<and>
         db (snd (retryLoop env cfg 0 d w0)) (loanId d) = Some (fst (retryLoop env cfg 0 d w0)) \<and>
         attemptCount (snd (retryLoop env cfg 0 d w0)) = attemptCount w0 + maxRetries cfg"
proof -
  let ?I = "\<lambda>attempts d' w. loanId d' = loanId d \<and> attemptCount w = attemptCount w0 + attempts \<and>
      attempts < maxRetries cfg"
  let ?Q = "\<lambda>d' w'. status d' = Failed \<and> (\<exists>e. error d' = Some (String e)) \<and>
      db w' (loanId d) = Some d' \<and> attemptCount w' = attemptCount w0 + maxRetries cfg"
  show ?thesis
  proof (rule retryLoop_rule [where I = ?I and Q = ?Q])
    show "?I 0 d w0" using pos by simp
  next
    fix attempts d1 w d' w'
    assume h: "?I attempts d1 w" "attempts < maxRetries cfg"
      "processDeployment env cfg d1 w = (None, d', w')"
    then have False using PD_always_fails [OF h(3)] af by simp
    then show "?Q d' w'" ..
  next
    fix attempts d1 w e d' w'
    assume h: "?I attempts d1 w" "attempts < maxRetries cfg"
      "processDeployment env cfg d1 w = (Some e, d', w')" "maxRetries cfg \<le> attempts + 1"
    then show "?Q (d'\<lparr>status := Failed, error := Some (String e)\<rparr>)
          (saveDeployment (d'\<lparr>status := Failed, error := Some (String e)\<rparr>) w')"
      using PD_frame(1,2) [OF h(3)] by (auto simp: saveDeployment_simps)
  next
    fix attempts d1 w e d' w'
    assume h: "?I attempts d1 w" "attempts + 1 < maxRetries cfg"
      "processDeployment env cfg d1 w = (Some e, d', w')"
    then show "?I (attempts + 1) d' (sleep (retryDelayMs cfg * 2 ^ attempts) w')"
      using PD_frame(1,2) [OF h(3)] by (simp add: sleep_simps)
  next
    fix attempts and d1 :: DeploymentRecord and w :: world
    assume "?I attempts d1 w" "\<not> attempts < maxRetries cfg"
    then show "?Q d1 w" by simp
  qed
qed


lemma handleLoanRequested_start:
  "\<not> alreadyProcessed (getDeployment w (ev_loanId ev)) \<Longrightarrow>
     handleLoanRequested env cfg ev w =
       snd (retryLoop env cfg 0 (newDeployment ev w) (saveDeployment (newDeployment ev w) w))"
  by (simp add: handleLoanRequested_def processDeploymentWithRetries_def Let_def)

lemma handleLoanRequested_skip:
  "alreadyProcessed (getDeployment w (ev_loanId ev)) \<Longrightarrow> handleLoanRequested env cfg ev w = w"
  by (simp add: handleLoanRequested_def)

lemma retryLoop_frame:
  assumes start: "db w0 (loanId d) = Some r0" "loanId r0 = loanId d"
  shows "loanId (fst (retryLoop env cfg attempts d w0)) = loanId d \<and>
         (\<exists>r. db (snd (retryLoop env cfg attempts d w0)) (loanId d) = Some r \<and> loanId r = loanId d) \<and>
         (\<forall>k. k \<noteq> loanId d \<longrightarrow> db (snd (retryLoop env cfg attempts d w0)) k = db w0 k) \<and>
         recoveries (snd (retryLoop env cfg attempts d w0)) = recoveries w0 \<and>
         deployerPdaBalance (snd (retryLoop env cfg attempts d w0)) = deployerPdaBalance w0"
proof -
  let ?I = "\<lambda>(attempts::nat) d' w. loanId d' = loanId d \<and>
      (\<exists>r. db w (loanId d) = Some r \<and> loanId r = loanId d) \<and>
      (\<forall>k. k \<noteq> loanId d \<longrightarrow> db w k = db w0 k) \<and>
      recoveries w = recoveries w0 \<and> deployerPdaBalance w = deployerPdaBalance w0"
  let ?Q = "\<lambda>d' w. ?I 0 d' w"
  show ?thesis
  proof (rule retryLoop_rule [where I = ?I and Q = ?Q])
    show "?I attempts d w0" using start by simp
  next
    fix attempts d1 w d' w'
    assume h: "?I attempts d1 w" "attempts < maxRetries cfg"
      "processDeployment env cfg d1 w = (None, d', w')"
    then show "?Q d' w'"
      using PD_frame(1,3,4) [OF h(3)] PD_self [OF h(3)] PD_other [OF h(3)] by auto
  next
    fix attempts d1 w e d' w'
    assume h: "?I attempts d1 w" "attempts < maxRetries cfg"
      "processDeployment env cfg d1 w = (Some e, d', w')" "maxRetries cfg \<le> attempts + 1"
    then show "?Q (d'\<lparr>status := Failed, error := Some (String e)\<rparr>)
          (saveDeployment (d'\<lparr>status := Failed, error := Some (String e)\<rparr>) w')"
      using PD_frame(1,3,4) [OF h(3)] PD_other [OF h(3)] by (auto simp: saveDeployment_simps)
  next
    fix attempts d1 w e d' w'
    assume h: "?I attempts d1 w" "attempts + 1 < maxRetries cfg"
      "processDeployment env cfg d1 w = (Some e, d', w')"
    then show "?I (attempts + 1) d' (sleep (retryDelayMs cfg * 2 ^ attempts) w')"
      using PD_frame(1,3,4) [OF h(3)] PD_self [OF h(3)] PD_other [OF h(3)]
      by (auto simp: sleep_simps)
  next
    fix attempts and d1 :: DeploymentRecord and w :: world
    assume "?I attempts d1 w" "\<not> attempts < maxRetries cfg"
    then show "?Q d1 w" by simp
  qed
qed

lemma retryLoop_inv:
  assumes "store_ok w0" "writes_ok w0"
  shows "store_ok (snd (retryLoop env cfg attempts d w0)) \<and>
         writes_ok (snd (retryLoop env cfg attempts d w0))"
proof -
  let ?I = "\<lambda>(attempts::nat) (d'::DeploymentRecord) w. store_ok w \<and> writes_ok w"
  let ?Q = "\<lambda>(d'::DeploymentRecord) w. store_ok w \<and> writes_ok w"
  have failed_ok: "record_ok (d'\<lparr>status := Failed, error := Some s\<rparr>)"
    for d' :: DeploymentRecord and s
    by (simp add: record_ok_def)
  show ?thesis
  proof (rule retryLoop_rule [where I = ?I and Q = ?Q])
    show "?I attempts d w0" using assms by simp
  next
    fix attempts d1 w d' w'
    assume h: "?I attempts d1 w" "attempts < maxRetries cfg"
      "processDeployment env cfg d1 w = (None, d', w')"
    then show "?Q d' w'" using PD_store_ok [OF h(3)] PD_writes_ok [OF h(3)] by simp
  next
    fix attempts d1 w e d' w'
    assume h: "?I attempts d1 w" "attempts < maxRetries cfg"
      "processDeployment env cfg d1 w = (Some e, d', w')" "maxRetries cfg \<le> attempts + 1"
    then have "store_ok w'" "writes_ok w'"
      using PD_store_ok [OF h(3)] PD_writes_ok [OF h(3)] by simp_all
    then show "?Q (d'\<lparr>status := Failed, error := Some (String e)\<rparr>)
          (saveDeployment (d'\<lparr>status := Failed, error := Some (String e)\<rparr>) w')"
      using failed_ok
      by (auto simp: store_ok_def writes_ok_def saveDeployment_simps)
  next
    fix attempts d1 w e d' w'
    assume h: "?I attempts d1 w" "attempts + 1 < maxRetries cfg"
      "processDeployment env cfg d1 w = (Some e, d', w')"
    then have "store_ok w'" "writes_ok w'"
      using PD_store_ok [OF h(3)] PD_writes_ok [OF h(3)] by simp_all
    then show "?I (attempts + 1) d' (sleep (retryDelayMs cfg * 2 ^ attempts) w')"
      by (auto simp: store_ok_def writes_ok_def sleep_simps)
  next
    fix attempts and d1 :: DeploymentRecord and w :: world
    assume "?I attempts d1 w" "\<not> attempts < maxRetries cfg"
    then show "?Q d1 w" by simp
  qed
qed

lemma handleLoanRequested_inv:
  assumes "store_ok w" "writes_ok w"
  shows "store_ok (handleLoanRequested env cfg ev w) \<and> writes_ok (handleLoanRequested env cfg ev w)"
proof (cases "alreadyProcessed (getDeployment w (ev_loanId ev))")
  case True
  then show ?thesis using assms by (simp add: handleLoanRequested_skip)
next
  case False
  have "record_ok (newDeployment ev w)" by (simp add: record_ok_def newDeployment_def)
  then have "store_ok (saveDeployment (newDeployment ev w) w)"
    "writes_ok (saveDeployment (newDeployment ev w) w)"
    using assms by (auto simp: store_ok_def writes_ok_def saveDeployment_simps)
  then show ?thesis
    using retryLoop_inv by (simp add: handleLoanRequested_start [OF False])
qed

lemma processRecovery_inv:
  assumes "store_ok w" "writes_ok w"
  shows "store_ok (processRecovery env lid w) \<and> writes_ok (processRecovery env lid w)"
  using assms
  by (auto simp: PR_unfold store_ok_def writes_ok_def record_ok_def split: PR_splits)

lemma handleLoanRequested_other:
  "k \<noteq> ev_loanId ev \<Longrightarrow> db (handleLoanRequested env cfg ev w) k = db w k"
proof (cases "alreadyProcessed (getDeployment w (ev_loanId ev))")
  case True
  then show ?thesis by (simp add: handleLoanRequested_skip)
next
  case False
  assume k: "k \<noteq> ev_loanId ev"
  let ?d = "newDeployment ev w"
  have lid: "loanId ?d = ev_loanId ev" by (simp add: newDeployment_def)
  have "db (saveDeployment ?d w) (loanId ?d) = Some ?d" by (simp add: saveDeployment_simps)
  from retryLoop_frame [OF this refl, of env cfg 0] k lid
  show ?thesis by (simp add: handleLoanRequested_start [OF False] saveDeployment_simps)
qed

lemma handleLoanRequested_self:
  "\<exists>r. db (handleLoanRequested env cfg ev w) (ev_loanId ev) = Some r \<and>
       (keyed w \<longrightarrow> loanId r = ev_loanId ev)"
proof (cases "alreadyProcessed (getDeployment w (ev_loanId ev))")
  case True
  then show ?thesis
    by (auto simp: handleLoanRequested_skip alreadyProcessed_def getDeployment_def keyed_def
        split: option.splits)
next
  case False
  let ?d = "newDeployment ev w"
  have lid: "loanId ?d = ev_loanId ev" by (simp add: newDeployment_def)
  have "db (saveDeployment ?d w) (loanId ?d) = Some ?d" by (simp add: saveDeployment_simps)
  from retryLoop_frame [OF this refl, of env cfg 0] lid
  show ?thesis by (auto simp: handleLoanRequested_start [OF False])
qed

lemma handleLoanRequested_keyed:
  assumes "keyed w"
  shows "keyed (handleLoanRequested env cfg ev w)"
  unfolding keyed_def
proof (intro allI impI)
  fix k r assume h: "db (handleLoanRequested env cfg ev w) k = Some r"
  show "loanId r = k"
  proof (cases "k = ev_loanId ev")
    case True
    then show ?thesis using handleLoanRequested_self [of env cfg ev w] h assms by auto
  next
    case False
    then show ?thesis using handleLoanRequested_other [of k ev env cfg w] h assms
      by (simp add: keyed_def)
  qed
qed

lemma processRecovery_other:
  "keyed w \<Longrightarrow> k \<noteq> lid \<Longrightarrow> db (processRecovery env lid w) k = db w k"
  by (auto simp: PR_unfold keyed_def split: PR_splits)

lemma processRecovery_keyed:
  "keyed w \<Longrightarrow> keyed (processRecovery env lid w)"
  by (auto simp: PR_unfold keyed_def split: PR_splits)

lemma handle_keeps_recovering:
  assumes "keyed w" "db w lid = Some r" "status r = Recovering"
  shows "keyed (handle env cfg w ev) \<and> db (handle env cfg w ev) lid = Some r"
proof (cases ev)
  case (LoanRequested x)
  show ?thesis
  proof (cases "ev_loanId x = lid")
    case True
    then have "alreadyProcessed (getDeployment w (ev_loanId x))"
      using assms by (simp add: alreadyProcessed_def getDeployment_def)
    then show ?thesis using assms LoanRequested by (simp add: handleLoanRequested_skip)
  next
    case False
    then show ?thesis
      using assms LoanRequested handleLoanRequested_other [of lid x env cfg w]
        handleLoanRequested_keyed [of w env cfg x] by auto
  qed
next
  case (LoanRecovered k)
  show ?thesis
  proof (cases "k = lid")
    case True
    then have "processRecovery env k w = w"
      using assms by (simp add: processRecovery_def getDeployment_def)
    then show ?thesis using assms LoanRecovered by (simp add: handleLoanRecovered_def)
  next
    case False
    then show ?thesis
      using assms LoanRecovered processRecovery_other [of w lid k env]
        processRecovery_keyed [of w env k] by (auto simp: handleLoanRecovered_def)
  qed
next
  case (LoanExpired k)
  show ?thesis
  proof (cases "k = lid")
    case True
    then have "processRecovery env k w = w"
      using assms by (simp add: processRecovery_def getDeployment_def)
    then show ?thesis using assms LoanExpired by (simp add: handleLoanExpired_def)
  next
    case False
    then show ?thesis
      using assms LoanExpired processRecovery_other [of w lid k env]
        processRecovery_keyed [of w env k] by (auto simp: handleLoanExpired_def)
  qed
qed

lemma run_keeps_recovering:
  "keyed w \<Longrightarrow> db w lid = Some r \<Longrightarrow> status r = Recovering \<Longrightarrow>
     db (run env cfg evs w) lid = Some r"
  unfolding run_def
proof (induction evs arbitrary: w)
  case Nil
  then show ?case by simp
next
  case (Cons ev evs)
  from handle_keeps_recovering [OF Cons.prems, of env cfg ev]
  show ?case using Cons.IH [of "handle env cfg w ev"] Cons.prems(3) by simp
qed

lemma handle_inv:
  "store_ok w \<Longrightarrow> writes_ok w \<Longrightarrow>
     store_ok (handle env cfg w ev) \<and> writes_ok (handle env cfg w ev)"
  by (cases ev)
    (simp_all add: handleLoanRequested_inv processRecovery_inv handleLoanRecovered_def
      handleLoanExpired_def)

lemma run_inv:
  "store_ok w \<Longrightarrow> writes_ok w \<Longrightarrow>
     store_ok (run env cfg evs w) \<and> writes_ok (run env cfg evs w)"
  unfolding run_def
  by (induction evs arbitrary: w) (simp_all add: handle_inv)

lemma example_binary_valid: "valid (validateBinary example_binary)"
  by (simp add: validateBinary_def example_binary_def subarray_def elfMagic_def)









section \<open>The guard of the loan-request handler\<close>






section \<open>Retry with exponential backoff\<close>

text \<open>
  Claim C2. A run of \<open>processDeploymentWithRetries\<close> makes at most \<open>maxRetries\<close>
  attempts, and the timers it waits for are \<open>retryDelayMs * 2^(k-1)\<close> after the failed
  attempt number \<open>k\<close>, one between each two consecutive attempts. When the deployment
  transaction is rejected in the first \<open>n\<close> attempts and accepted in the next one, with
  \<open>n < maxRetries\<close> (in particular \<open>n = maxRetries - 1\<close>), a valid binary at hand and
  the registration accepted, the record that is persisted last has status \<open>deployed\<close>,
  \<open>n + 1\<close> attempts were made and exactly \<open>n\<close> delays occurred, each the double of
  the one before.
\<close>

theorem retry_backoff:
  assumes run: "processDeploymentWithRetries env cfg d w = (d', w')"
  shows
   "attemptCount w \<le> attemptCount w' \<and> attemptCount w' - attemptCount w \<le> maxRetries cfg \<and>
    sleeps (trace w') = sleeps (trace w) @
      map (\<lambda>k. retryDelayMs cfg * 2 ^ k) [0..<attemptCount w' - attemptCount w - 1] \<and>
    (n < maxRetries cfg \<and>
     files w (dummyBinaryPath env cfg) = Some bin \<and> valid (validateBinary bin) \<and>
     (\<forall>i<n. isl (deployTransaction env (attemptCount w + i) (loanId d) bin)) \<and>
     deployTransaction env (attemptCount w + n) (loanId d) bin = Inr (pid, buf, sig) \<and>
     adminWallet env \<and> setDeployedProgramRpc env (attemptCount w + n) (loanId d) pid = Inr tx
     \<longrightarrow>
       getDeployment w' (loanId d) = Some d' \<and> status d' = Deployed \<and>
       attemptCount w' - attemptCount w = n + 1 \<and>
       (\<exists>delays. sleeps (trace w') = sleeps (trace w) @ delays \<and> length delays = n \<and>
          (\<forall>k. k < n \<longrightarrow> delays ! k = retryDelayMs cfg * 2 ^ k) \<and>
          (\<forall>k. Suc k < n \<longrightarrow> 2 * delays ! k \<le> delays ! Suc k)))"
proof -
  have r: "retryLoop env cfg 0 d w = (d', w')"
    using run by (simp add: processDeploymentWithRetries_def)
  note g = retryLoop_attempts_and_delays [where env = env and cfg = cfg and d = d and ?w0.0 = w,
      unfolded r fst_conv snd_conv]
  have general: "attemptCount w \<le> attemptCount w'" "attemptCount w' - attemptCount w \<le> maxRetries cfg"
    "sleeps (trace w') = sleeps (trace w) @
      map (\<lambda>k. retryDelayMs cfg * 2 ^ k) [0..<attemptCount w' - attemptCount w - 1]"
    using g by simp_all
  have scenario: "getDeployment w' (loanId d) = Some d' \<and> status d' = Deployed \<and>
       attemptCount w' - attemptCount w = n + 1 \<and>
       (\<exists>delays. sleeps (trace w') = sleeps (trace w) @ delays \<and> length delays = n \<and>
          (\<forall>k. k < n \<longrightarrow> delays ! k = retryDelayMs cfg * 2 ^ k) \<and>
          (\<forall>k. Suc k < n \<longrightarrow> 2 * delays ! k \<le> delays ! Suc k))"
    if h: "n < maxRetries cfg" "files w (dummyBinaryPath env cfg) = Some bin"
      "valid (validateBinary bin)"
      "\<forall>i<n. isl (deployTransaction env (attemptCount w + i) (loanId d) bin)"
      "deployTransaction env (attemptCount w + n) (loanId d) bin = Inr (pid, buf, sig)"
      "adminWallet env" "setDeployedProgramRpc env (attemptCount w + n) (loanId d) pid = Inr tx"
  proof -
    note s = retryLoop_fails_then_succeeds [OF h, unfolded r fst_conv snd_conv]
    have a: "attemptCount w' - attemptCount w = n + 1" using s by simp
    let ?delays = "map (\<lambda>k. retryDelayMs cfg * 2 ^ k) [0..<n]"
    have "sleeps (trace w') = sleeps (trace w) @ ?delays" using general(3) a by simp
    moreover have "length ?delays = n" by simp
    moreover have "\<forall>k. k < n \<longrightarrow> ?delays ! k = retryDelayMs cfg * 2 ^ k" by simp
    moreover have "\<forall>k. Suc k < n \<longrightarrow> 2 * ?delays ! k \<le> ?delays ! Suc k" by simp
    ultimately show ?thesis using s a by (auto simp: getDeployment_def)
  qed
  show ?thesis using general scenario by blast
qed

text \<open>Two rejections, then success, with \<open>maxRetries = 3\<close> and a base delay of 5000 ms.\<close>

theorem retry_backoff_witness:
  "getDeployment (snd (processDeploymentWithRetries flaky_env example_config
       (newDeployment example_event fresh_world) fresh_world)) ''42'' =
     Some (fst (processDeploymentWithRetries flaky_env example_config
       (newDeployment example_event fresh_world) fresh_world)) \<and>
   status (fst (processDeploymentWithRetries flaky_env example_config
       (newDeployment example_event fresh_world) fresh_world)) = Deployed \<and>
   attemptCount (snd (processDeploymentWithRetries flaky_env example_config
       (newDeployment example_event fresh_world) fresh_world)) = 3 \<and>
   sleeps (trace (snd (processDeploymentWithRetries flaky_env example_config
       (newDeployment example_event fresh_world) fresh_world))) = [5000, 10000]"
proof -
  let ?d = "newDeployment example_event fresh_world"
  let ?r = "processDeploymentWithRetries flaky_env example_config ?d fresh_world"
  have run: "?r = (fst ?r, snd ?r)" by simp
  have lid: "loanId ?d = ''42''" by (simp add: newDeployment_def example_event_def)
  have scen: "2 < maxRetries example_config \<and>
     files fresh_world (dummyBinaryPath flaky_env example_config) = Some example_binary \<and>
     valid (validateBinary example_binary) \<and>
     (\<forall>i<2. isl (deployTransaction flaky_env (attemptCount fresh_world + i) (loanId ?d)
        example_binary)) \<and>
     deployTransaction flaky_env (attemptCount fresh_world + 2) (loanId ?d) example_binary =
       Inr (example_program, example_buffer, ''sigDeploy'') \<and>
     adminWallet flaky_env \<and>
     setDeployedProgramRpc flaky_env (attemptCount fresh_world + 2) (loanId ?d) example_program =
       Inr ''sigSet''"
    by (simp add: example_config_def fresh_world_def dummyBinaryPath_def flaky_env_def
        example_binary_valid)
  note t = retry_backoff [OF run, where n = 2 and bin = example_binary and pid = example_program
      and buf = example_buffer and sig = "''sigDeploy''" and tx = "''sigSet''"]
  from t scen have s: "getDeployment (snd ?r) (loanId ?d) = Some (fst ?r)"
    "status (fst ?r) = Deployed" "attemptCount (snd ?r) - attemptCount fresh_world = 2 + 1"
    by blast+
  have a: "attemptCount (snd ?r) = 3" using s(3) by (simp add: fresh_world_def)
  have "sleeps (trace (snd ?r)) = sleeps (trace fresh_world) @
      map (\<lambda>k. retryDelayMs example_config * 2 ^ k) [0..<attemptCount (snd ?r) - attemptCount fresh_world - 1]"
    using t by blast
  then have "sleeps (trace (snd ?r)) = [5000, 10000]"
    unfolding a by (simp add: fresh_world_def example_config_def upt_rec)
  then show ?thesis using s(1,2) a lid by simp
qed

section \<open>Exhausted retries\<close>

text \<open>
  Claim C3, amended. Let \<open>maxRetries\<close> be at least 1, let the deployment dependency
  always fail for the loan (\<open>always_fails\<close>), and let a \<open>loanRequested\<close> event pass the
  guard of the handler. Then the handler makes exactly \<open>maxRetries\<close> attempts and leaves
  a persisted record with status \<open>failed\<close> and a non-empty \<open>error\<close>; and whatever
  recovery and expiry events follow, no further attempt is made before a new
  \<open>loanRequested\<close> event.
\<close>

theorem retries_exhausted:
  assumes "0 < maxRetries cfg"
    and "always_fails env (ev_loanId ev)"
    and "\<not> alreadyProcessed (getDeployment w (ev_loanId ev))"
  shows "attemptCount (handleLoanRequested env cfg ev w) = attemptCount w + maxRetries cfg \<and>
         (\<exists>r e. getDeployment (handleLoanRequested env cfg ev w) (ev_loanId ev) = Some r \<and>
            status r = Failed \<and> error r = Some e \<and> e \<noteq> []) \<and>
         (\<forall>evs. (\<forall>x\<in>set evs. \<not> is_LoanRequested x) \<longrightarrow>
            attemptCount (run env cfg evs (handleLoanRequested env cfg ev w)) =
              attemptCount (handleLoanRequested env cfg ev w))"
proof -
  let ?d = "newDeployment ev w"
  have lid: "loanId ?d = ev_loanId ev" by (simp add: newDeployment_def)
  have h: "handleLoanRequested env cfg ev w = snd (retryLoop env cfg 0 ?d (saveDeployment ?d w))"
    using assms(3) by (rule handleLoanRequested_start)
  note l = retryLoop_always_fails [OF assms(1), of env ?d "saveDeployment ?d w",
      unfolded lid, OF assms(2)]
  show ?thesis
    using l by (auto simp: h getDeployment_def saveDeployment_simps String_nonempty
        run_recovery_attempts)
qed

text \<open>
  As the claim is stated, without the bound on \<open>maxRetries\<close>, it fails for
  \<open>maxRetries = 0\<close>: the loop body never runs, no attempt is made, and the record stays
  \<open>pending\<close> with no error, although the dependency always fails.
\<close>

theorem no_retries_counterexample:
  "getDeployment (handleLoanRequested failing_env (example_config\<lparr>maxRetries := 0\<rparr>)
      example_event fresh_world) ''42'' = Some (newDeployment example_event fresh_world) \<and>
   attemptCount (handleLoanRequested failing_env (example_config\<lparr>maxRetries := 0\<rparr>)
      example_event fresh_world) = 0 \<and>
   status (newDeployment example_event fresh_world) = Pending \<and>
   error (newDeployment example_event fresh_world) = None \<and>
   always_fails failing_env ''42''"
  by (simp add: handleLoanRequested_def alreadyProcessed_def getDeployment_def Let_def
      processDeploymentWithRetries_def retryLoop_done saveDeployment_simps
      newDeployment_def example_event_def fresh_world_def example_config_def
      always_fails_def failing_env_def flaky_env_def)

text \<open>Three rejected attempts of loan 42, then an expiry and a recovery event.\<close>

theorem retries_exhausted_witness:
  "attemptCount (handleLoanRequested failing_env example_config example_event fresh_world) = 3 \<and>
   (\<exists>r e. getDeployment (handleLoanRequested failing_env example_config example_event
        fresh_world) ''42'' = Some r \<and> status r = Failed \<and> error r = Some e \<and> e \<noteq> []) \<and>
   attemptCount (run failing_env example_config [LoanExpired ''42'', LoanRecovered ''42'']
      (handleLoanRequested failing_env example_config example_event fresh_world)) = 3"
proof -
  have a: "0 < maxRetries example_config" by (simp add: example_config_def)
  have b: "always_fails failing_env (ev_loanId example_event)"
    by (simp add: always_fails_def failing_env_def flaky_env_def)
  have c: "\<not> alreadyProcessed (getDeployment fresh_world (ev_loanId example_event))"
    by (simp add: alreadyProcessed_def getDeployment_def fresh_world_def)
  have e: "\<forall>x\<in>set [LoanExpired ''42'', LoanRecovered ''42'']. \<not> is_LoanRequested x"
    by (simp add: is_LoanRequested_def)
  note t = retries_exhausted [OF a b c]
  have "attemptCount (handleLoanRequested failing_env example_config example_event fresh_world) = 3"
    using t by (simp add: fresh_world_def example_config_def)
  then show ?thesis
    using t e by (auto simp: example_event_def)
qed

section \<open>The guard of recovery\<close>

text \<open>
  Claim C4. \<open>processRecovery\<close> for a loan changes nothing when the store has no record
  of the loan or the record's status is not \<open>deployed\<close>: the state after the call is the
  state before it, so no record is written and no transaction is sent. The two events
  that lead to \<open>processRecovery\<close> behave the same.
\<close>

theorem processRecovery_guard:
  "getDeployment w lid = None \<or> (\<exists>d. getDeployment w lid = Some d \<and> status d \<noteq> Deployed) \<Longrightarrow>
     processRecovery env lid w = w \<and> handleLoanRecovered env lid w = w \<and>
     handleLoanExpired env lid w = w"
  by (auto simp: processRecovery_def handleLoanRecovered_def handleLoanExpired_def)

text \<open>No record at all, and a record of loan 42 that is still \<open>deploying\<close>.\<close>

theorem processRecovery_guard_witness:
  "processRecovery flaky_env ''42'' fresh_world = fresh_world \<and>
   processRecovery flaky_env ''42'' (world_with (example_record Deploying None)) =
     world_with (example_record Deploying None)"
proof -
  have a: "getDeployment fresh_world ''42'' = None \<or>
      (\<exists>d. getDeployment fresh_world ''42'' = Some d \<and> status d \<noteq> Deployed)"
    by (simp add: getDeployment_def fresh_world_def)
  have b: "getDeployment (world_with (example_record Deploying None)) ''42'' = None \<or>
      (\<exists>d. getDeployment (world_with (example_record Deploying None)) ''42'' = Some d \<and>
         status d \<noteq> Deployed)"
    by (simp add: getDeployment_def world_with_def example_record_def)
  show ?thesis
    using processRecovery_guard [OF a, of flaky_env] processRecovery_guard [OF b, of flaky_env]
    by simp
qed


section \<open>Invariants of the persisted records\<close>

text \<open>
  Claim C5. Let every record of the store, and every record written so far, satisfy the
  invariant: a \<open>deployed\<close> record has \<open>programId\<close>, \<open>deployTxSignature\<close> and
  \<open>setDeployedTxSignature\<close>, a \<open>recovered\<close> record has \<open>recoveryTxSignature\<close>. Then the
  same holds after each event that the orchestrator handles, and after every sequence of
  events, for the store and for every record written on the way.
\<close>

theorem persisted_records_invariant:
  assumes "store_ok w" and "writes_ok w"
  shows "store_ok (handle env cfg w ev) \<and> writes_ok (handle env cfg w ev) \<and>
         store_ok (run env cfg evs w) \<and> writes_ok (run env cfg evs w)"
  using assms handle_inv [of w env cfg ev] run_inv [of w env cfg evs] by simp

text \<open>Loan 42 is requested in the fresh world, deployed at the third attempt, and
  then expires.\<close>

theorem persisted_records_invariant_witness:
  "store_ok (run flaky_env example_config [LoanRequested example_event, LoanExpired ''42'']
     fresh_world) \<and>
   writes_ok (run flaky_env example_config [LoanRequested example_event, LoanExpired ''42'']
     fresh_world)"
proof -
  have a: "store_ok fresh_world" by (simp add: store_ok_def fresh_world_def)
  have b: "writes_ok fresh_world" by (simp add: writes_ok_def fresh_world_def)
  show ?thesis
    using persisted_records_invariant [OF a b, of flaky_env example_config
        "LoanExpired ''42''" "[LoanRequested example_event, LoanExpired ''42'']"]
    by simp
qed


section \<open>The amount returned to the vault\<close>

lemma bitlen_0: "bitlen 0 = 0"
  by (subst bitlen.simps) simp

lemma bitlen_eq: "2 ^ k \<le> n \<Longrightarrow> n < 2 ^ Suc k \<Longrightarrow> bitlen n = Suc k"
proof (induction k arbitrary: n)
  case 0
  then have "n = 1" by simp
  then show ?case by (subst bitlen.simps) (simp add: bitlen_0)
next
  case (Suc k)
  have "2 ^ k \<le> n div 2" using Suc.prems(1) by simp
  moreover have "n div 2 < 2 ^ Suc k" using Suc.prems(2) by simp
  ultimately have "bitlen (n div 2) = Suc k" by (rule Suc.IH)
  moreover have "n \<noteq> 0" using Suc.prems(1) by (cases "n = 0") simp_all
  ultimately show ?case by (subst bitlen.simps) simp
qed

lemma bitlen_numeral:
  "2 ^ k \<le> (numeral v :: nat) \<Longrightarrow> numeral v < (2::nat) ^ Suc k \<Longrightarrow> bitlen (numeral v) = Suc k"
  by (rule bitlen_eq)

lemma bitlen_Suc_0: "bitlen (Suc 0) = 1" "bitlen 1 = 1"
  using bitlen_eq [of 0 1] by simp_all


lemma round_trip_loses_a_lamport:
  "BN (times_number (divide_number (number_of_nat 2000000003) LAMPORTS_PER_SOL)
     LAMPORTS_PER_SOL) = Inr 2000000002"
proof -
  have b1: "bitlen 2000000003 = 31" by (rule bitlen_eq [of 30, simplified]) simp_all
  have b2: "bitlen 2251799813685248 = 52" by (rule bitlen_eq [of 51, simplified]) simp_all
  have b3: "bitlen 4194304000000000 = 52" by (rule bitlen_eq [of 51, simplified]) simp_all
  have b4: "bitlen 8388608012582912 = 53" by (rule bitlen_eq [of 52, simplified]) simp_all
  have b5: "bitlen 4503599634125895000000000 = 82" by (rule bitlen_eq [of 81, simplified]) simp_all
  have n1: "number_of_nat 2000000003 = (8388608012582912, - 22)"
    by (simp add: number_of_nat_def to_double_def floor_log2_def round_half_even_def Let_def
        bitlen_Suc_0 b1 b2 b3 b4 b5)
  have n2: "divide_number (8388608012582912, - 22) LAMPORTS_PER_SOL = (4503599634125895, - 51)"
    by (simp add: LAMPORTS_PER_SOL_def to_double_def floor_log2_def round_half_even_def Let_def
        bitlen_Suc_0 b1 b2 b3 b4 b5)
  have n3: "times_number (4503599634125895, - 51) LAMPORTS_PER_SOL = (8388608012582911, - 22)"
    by (simp add: LAMPORTS_PER_SOL_def to_double_def floor_log2_def round_half_even_def Let_def
        bitlen_Suc_0 b1 b2 b3 b4 b5)
  have n4: "BN (8388608012582911, - 22) = Inr 2000000002" by simp
  show ?thesis by (simp only: n1 n2 n3 n4)
qed

lemma round_trip_refused:
  "BN (times_number (divide_number (number_of_nat 9007199254740992) LAMPORTS_PER_SOL)
     LAMPORTS_PER_SOL) = Inl (Error ''Assertion failed'')"
proof -
  have b1: "bitlen 536870912 = 30" by (rule bitlen_eq [of 29, simplified]) simp_all
  have b2: "bitlen 1000000000 = 30" by (rule bitlen_eq [of 29, simplified]) simp_all
  have b3: "bitlen 9007199254740992 = 54" by (rule bitlen_eq [of 53, simplified]) simp_all
  have b4: "bitlen 4835703278458517000000000 = 83" by (rule bitlen_eq [of 82, simplified]) simp_all
  have n1: "number_of_nat 9007199254740992 = (4503599627370496, 1)"
    by (simp add: number_of_nat_def to_double_def floor_log2_def round_half_even_def Let_def
        bitlen_Suc_0 b1 b2 b3 b4)
  have n2: "divide_number (4503599627370496, 1) LAMPORTS_PER_SOL = (4835703278458517, - 29)"
    by (simp add: LAMPORTS_PER_SOL_def to_double_def floor_log2_def round_half_even_def Let_def
        bitlen_Suc_0 b1 b2 b3 b4)
  have n3: "times_number (4835703278458517, - 29) LAMPORTS_PER_SOL = (4503599627370496, 1)"
    by (simp add: LAMPORTS_PER_SOL_def to_double_def floor_log2_def round_half_even_def Let_def
        bitlen_Suc_0 b1 b2 b3 b4)
  have n4: "BN (4503599627370496, 1) = Inl (Error ''Assertion failed'')" by simp
  show ?thesis by (simp only: n1 n2 n3 n4)
qed




lemma not_a_key: "\<not> isBase58Key ''Prog1''"
proof -
  have n: "base58_number ''Prog1'' 0 = Some 258680406"
    by (simp add: base58_alphabet_def)
  have b: "bitlen 258680406 = 28" by (rule bitlen_eq [of 27, simplified]) simp_all
  show ?thesis unfolding isBase58Key_def bs58_decoded_length_def n by (simp add: b)
qed

lemma closeProgram_reports_balance:
  "closeTransaction env n lid pid = Closed credited signature \<Longrightarrow>
     fst (closeProgram env n lid pid w) =
       Inr (divide_number (number_of_nat (deployerPdaBalance w + credited)) LAMPORTS_PER_SOL,
            signature)"
  by (simp add: closeProgram_def)


section \<open>Content addressing of stored binaries\<close>

lemma binary_names_distinct:
  assumes "CHR ''_'' \<notin> set lid" and "CHR ''_'' \<notin> set lid'"
    and "lid @ ''_'' @ h @ ''.so'' = lid' @ ''_'' @ h' @ ''.so''"
  shows "lid = lid' \<and> h = h'"
proof -
  have t: "takeWhile (\<lambda>c. c \<noteq> CHR ''_'') (l @ ''_'' @ r) = l" if "CHR ''_'' \<notin> set l" for l r
    using that by (induction l) auto
  have "takeWhile (\<lambda>c. c \<noteq> CHR ''_'') (lid @ ''_'' @ h @ ''.so'') =
      takeWhile (\<lambda>c. c \<noteq> CHR ''_'') (lid' @ ''_'' @ h' @ ''.so'')"
    using assms(3) by (rule arg_cong)
  then have "lid = lid'"
    unfolding t [OF assms(1)] t [OF assms(2)] .
  then show ?thesis using assms(3) by simp
qed

text \<open>
  Claim C8. \<open>storeBinary\<close> returns the SHA-256 hex digest of the bytes it is given (the
  digest function and \<open>path.join\<close> of Node are the parameters \<open>sha256hex\<close> and
  \<open>path_join\<close>) and writes exactly these bytes to the file
  \<open>path.join(storagePath, loanId_digest.so)\<close>, and to no other file. A second call with
  the same loan and bytes returns the same digest, writes the same bytes to the same file
  and leaves the files as the first call left them; no call fails. When \<open>path.join\<close>
  keeps distinct names apart and loan identifiers have no underscore, two destinations
  agree only for the same loan and the same digest.
\<close>

theorem storeBinary_content_addressed:
  "fst (storeBinary env storagePath lid bytes w) = sha256hex env bytes \<and>
   files (snd (storeBinary env storagePath lid bytes w))
     (path_join env storagePath (lid @ ''_'' @ sha256hex env bytes @ ''.so'')) = Some bytes \<and>
   (\<forall>p. p \<noteq> path_join env storagePath (lid @ ''_'' @ sha256hex env bytes @ ''.so'') \<longrightarrow>
      files (snd (storeBinary env storagePath lid bytes w)) p = files w p) \<and>
   trace (snd (storeBinary env storagePath lid bytes w)) =
     trace w @
     [WriteFile (path_join env storagePath (lid @ ''_'' @ sha256hex env bytes @ ''.so'')) bytes] \<and>
   fst (storeBinary env storagePath lid bytes (snd (storeBinary env storagePath lid bytes w))) =
     fst (storeBinary env storagePath lid bytes w) \<and>
   files (snd (storeBinary env storagePath lid bytes (snd (storeBinary env storagePath lid bytes w)))) =
     files (snd (storeBinary env storagePath lid bytes w)) \<and>
   trace (snd (storeBinary env storagePath lid bytes (snd (storeBinary env storagePath lid bytes w)))) =
     trace w @
     [WriteFile (path_join env storagePath (lid @ ''_'' @ sha256hex env bytes @ ''.so'')) bytes,
      WriteFile (path_join env storagePath (lid @ ''_'' @ sha256hex env bytes @ ''.so'')) bytes] \<and>
   ((\<forall>a b. path_join env storagePath a = path_join env storagePath b \<longrightarrow> a = b) \<and>
    CHR ''_'' \<notin> set lid \<and> CHR ''_'' \<notin> set lid' \<and>
    path_join env storagePath (lid @ ''_'' @ sha256hex env bytes @ ''.so'') =
      path_join env storagePath (lid' @ ''_'' @ sha256hex env bytes' @ ''.so'') \<longrightarrow>
      lid = lid' \<and> sha256hex env bytes = sha256hex env bytes')"
proof -
  have key: "lid = lid' \<and> sha256hex env bytes = sha256hex env bytes'"
    if "\<forall>a b. path_join env storagePath a = path_join env storagePath b \<longrightarrow> a = b"
      "CHR ''_'' \<notin> set lid" "CHR ''_'' \<notin> set lid'"
      "path_join env storagePath (lid @ ''_'' @ sha256hex env bytes @ ''.so'') =
        path_join env storagePath (lid' @ ''_'' @ sha256hex env bytes' @ ''.so'')"
  proof -
    have "lid @ ''_'' @ sha256hex env bytes @ ''.so'' = lid' @ ''_'' @ sha256hex env bytes' @ ''.so''"
      using that(1,4) by blast
    then show ?thesis by (rule binary_names_distinct [OF that(2,3)])
  qed
  have rest: "fst (storeBinary env storagePath lid bytes w) = sha256hex env bytes \<and>
   files (snd (storeBinary env storagePath lid bytes w))
     (path_join env storagePath (lid @ ''_'' @ sha256hex env bytes @ ''.so'')) = Some bytes \<and>
   (\<forall>p. p \<noteq> path_join env storagePath (lid @ ''_'' @ sha256hex env bytes @ ''.so'') \<longrightarrow>
      files (snd (storeBinary env storagePath lid bytes w)) p = files w p) \<and>
   trace (snd (storeBinary env storagePath lid bytes w)) =
     trace w @
     [WriteFile (path_join env storagePath (lid @ ''_'' @ sha256hex env bytes @ ''.so'')) bytes] \<and>
   fst (storeBinary env storagePath lid bytes (snd (storeBinary env storagePath lid bytes w))) =
     fst (storeBinary env storagePath lid bytes w) \<and>
   files (snd (storeBinary env storagePath lid bytes (snd (storeBinary env storagePath lid bytes w)))) =
     files (snd (storeBinary env storagePath lid bytes w)) \<and>
   trace (snd (storeBinary env storagePath lid bytes (snd (storeBinary env storagePath lid bytes w)))) =
     trace w @
     [WriteFile (path_join env storagePath (lid @ ''_'' @ sha256hex env bytes @ ''.so'')) bytes,
      WriteFile (path_join env storagePath (lid @ ''_'' @ sha256hex env bytes @ ''.so'')) bytes]"
    by (simp add: storeBinary_def writeFile_def binaryPath_def Let_def)
  show ?thesis using rest key by blast
qed

text \<open>The binary of loan 42 is stored in the fresh world under its digest; the file that
  \<open>fetchBinaryForLoan\<close> reads is another file and stays; loan 43 gets another file.\<close>

theorem storeBinary_content_addressed_witness:
  "fst (storeBinary flaky_env ''binaries'' ''42'' example_binary fresh_world) = example_digest \<and>
   files (snd (storeBinary flaky_env ''binaries'' ''42'' example_binary fresh_world))
     (''binaries/42_'' @ example_digest @ ''.so'') = Some example_binary \<and>
   files (snd (storeBinary flaky_env ''binaries'' ''42'' example_binary fresh_world))
     ''binaries/test-program.so'' = Some example_binary \<and>
   files (snd (storeBinary flaky_env ''binaries'' ''42'' example_binary fresh_world))
     (''binaries/43_'' @ example_digest @ ''.so'') = None \<and>
   ''binaries/42_'' @ example_digest @ ''.so'' \<noteq> ''binaries/43_'' @ example_digest @ ''.so''"
proof -
  note t = storeBinary_content_addressed [where env = flaky_env and storagePath = "''binaries''"
      and lid = "''42''" and bytes = example_binary and w = fresh_world and lid' = "''43''"
      and bytes' = example_binary]
  have pj: "path_join flaky_env a b = a @ ''/'' @ b" for a b by (simp add: flaky_env_def)
  have dg: "sha256hex flaky_env b = example_digest" for b by (simp add: flaky_env_def)
  have inj: "\<forall>a b. path_join flaky_env ''binaries'' a = path_join flaky_env ''binaries'' b \<longrightarrow> a = b"
    by (simp add: pj)
  have u: "CHR ''_'' \<notin> set ''42''" "CHR ''_'' \<notin> set ''43''" by simp_all
  have ne1: "''binaries/test-program.so'' \<noteq>
      path_join flaky_env ''binaries'' (''42'' @ ''_'' @ sha256hex flaky_env example_binary @ ''.so'')"
    by (simp add: pj)
  have ne2: "path_join flaky_env ''binaries'' (''43'' @ ''_'' @ sha256hex flaky_env example_binary @ ''.so'') \<noteq>
      path_join flaky_env ''binaries'' (''42'' @ ''_'' @ sha256hex flaky_env example_binary @ ''.so'')"
    using t inj u by blast
  have f1: "files (snd (storeBinary flaky_env ''binaries'' ''42'' example_binary fresh_world))
      ''binaries/test-program.so'' = files fresh_world ''binaries/test-program.so''"
    using t ne1 by blast
  have f2: "files (snd (storeBinary flaky_env ''binaries'' ''42'' example_binary fresh_world))
      (path_join flaky_env ''binaries'' (''43'' @ ''_'' @ sha256hex flaky_env example_binary @ ''.so'')) =
      files fresh_world
        (path_join flaky_env ''binaries'' (''43'' @ ''_'' @ sha256hex flaky_env example_binary @ ''.so''))"
    using t ne2 by blast
  have f3: "files (snd (storeBinary flaky_env ''binaries'' ''42'' example_binary fresh_world))
      (path_join flaky_env ''binaries'' (''42'' @ ''_'' @ sha256hex flaky_env example_binary @ ''.so'')) =
      Some example_binary"
    "fst (storeBinary flaky_env ''binaries'' ''42'' example_binary fresh_world) =
      sha256hex flaky_env example_binary"
    using t by blast+
  show ?thesis
    using f1 f2 f3 ne2 by (simp add: pj dg fresh_world_def)
qed

section \<open>Recovery of a record without a program\<close>

text \<open>
  Claim C10. Let the store hold each record under its own loan, and let the record of a
  loan be \<open>deployed\<close> with no \<open>programId\<close>. Then \<open>processRecovery\<close> persists the record
  with status \<open>recovering\<close> and returns: this one write is its only effect, no program is
  closed, no transaction is sent, and the \<open>error\<close> field is as it was. Whatever events
  the orchestrator handles afterwards, the record of the loan stays this \<open>recovering\<close>
  record; it never becomes \<open>recovered\<close> or \<open>failed\<close>.
\<close>

theorem recovery_without_program_stalls:
  assumes "keyed w" and "getDeployment w lid = Some d"
    and "status d = Deployed" and "programId d = None"
  shows "processRecovery env lid w =
           saveDeployment (d\<lparr>status := Recovering, updatedAt := clock w\<rparr>)
             (w\<lparr>recoveries := recoveries w + 1\<rparr>) \<and>
         trace (processRecovery env lid w) =
           trace w @ [SaveDeployment (d\<lparr>status := Recovering, updatedAt := clock w\<rparr>)] \<and>
         error (d\<lparr>status := Recovering, updatedAt := clock w\<rparr>) = error d \<and>
         (\<forall>evs. getDeployment (run env cfg evs (processRecovery env lid w)) lid =
            Some (d\<lparr>status := Recovering, updatedAt := clock w\<rparr>))"
proof -
  let ?r = "d\<lparr>status := Recovering, updatedAt := clock w\<rparr>"
  have lid: "loanId d = lid" using assms(1,2) by (simp add: keyed_def getDeployment_def)
  have step: "processRecovery env lid w = saveDeployment ?r (w\<lparr>recoveries := recoveries w + 1\<rparr>)"
    using assms(2-4) by (simp add: processRecovery_def Let_def)
  have k: "keyed (processRecovery env lid w)" using assms(1) by (rule processRecovery_keyed)
  have at: "db (processRecovery env lid w) lid = Some ?r"
    using lid by (simp add: step saveDeployment_simps)
  have "db (run env cfg evs (processRecovery env lid w)) lid = Some ?r" for evs
    using run_keeps_recovering [OF k at] by simp
  then show ?thesis
    using step by (simp add: saveDeployment_simps getDeployment_def)
qed

text \<open>Loan 42 deployed without a program: the recovery stalls, and later expiry,
  recovery and request events for the loan leave the record as it is.\<close>

theorem recovery_without_program_stalls_witness:
  "trace (processRecovery flaky_env ''42'' (world_with (example_record Deployed None))) =
     [SaveDeployment (example_record Recovering None)] \<and>
   getDeployment (run flaky_env example_config
       [LoanExpired ''42'', LoanRecovered ''42'', LoanRequested example_event]
       (processRecovery flaky_env ''42'' (world_with (example_record Deployed None)))) ''42'' =
     Some (example_record Recovering None)"
proof -
  let ?w = "world_with (example_record Deployed None)"
  have a: "keyed ?w" by (simp add: keyed_def world_with_def example_record_def)
  have b: "getDeployment ?w ''42'' = Some (example_record Deployed None)"
    by (simp add: getDeployment_def world_with_def)
  have c: "status (example_record Deployed None) = Deployed"
    "programId (example_record Deployed None) = None"
    by (simp_all add: example_record_def)
  have r: "(example_record Deployed None)\<lparr>status := Recovering, updatedAt := clock ?w\<rparr> =
      example_record Recovering None"
    by (simp add: example_record_def world_with_def fresh_world_def)
  have t: "trace ?w = []" by (simp add: world_with_def fresh_world_def)
  note th = recovery_without_program_stalls [OF a b c, of flaky_env example_config,
      unfolded r t]
  have p1: "trace (processRecovery flaky_env ''42'' ?w) =
      [] @ [SaveDeployment (example_record Recovering None)]"
    using th by blast
  have p2: "getDeployment (run flaky_env example_config
       [LoanExpired ''42'', LoanRecovered ''42'', LoanRequested example_event]
       (processRecovery flaky_env ''42'' ?w)) ''42'' = Some (example_record Recovering None)"
    using th by blast
  show ?thesis using p1 p2 by simp
qed

end
